theory Spec2Isabelle
  imports Main "HOL-Library.Word"
begin

section \<open>Exceptions\<close>

text \<open>
  The exceptions the code raises or catches, as values. \<open>ValidationError\<close>,
  \<open>NotFoundError\<close>, \<open>ConflictError\<close> and \<open>DatabaseError\<close> are the subclasses of
  \<open>LambdaError\<close> declared in \<open>commons/lambda_utils.py\<close> and
  \<open>commons/dynamodb_utils.py\<close>; the others are Python's built-in classes. The string is
  the exception's message; a \<open>DatabaseError\<close> also carries its \<open>original_error\<close>, the
  \<open>ClientError\<close> of the store it was raised for, if any.
\<close>

datatype client_error = ClientError (error_code: string) (error_message: string)

datatype exn =
    ValueError string
  | TypeError string
  | JSONDecodeError string
  | OverflowError string
  | KeyError string
  | ValidationError string
  | NotFoundError string
  | ConflictError string
  | DatabaseError string "client_error option"

text \<open>The class of an exception: what an \<open>except\<close> clause dispatches on.\<close>

datatype exn_class =
    CValueError | CTypeError | CJSONDecodeError | COverflowError | CKeyError
  | CValidationError | CNotFoundError | CConflictError | CDatabaseError

fun class_of :: "exn \<Rightarrow> exn_class" where
  "class_of (ValueError m) = CValueError"
| "class_of (TypeError m) = CTypeError"
| "class_of (JSONDecodeError m) = CJSONDecodeError"
| "class_of (OverflowError m) = COverflowError"
| "class_of (KeyError m) = CKeyError"
| "class_of (ValidationError m) = CValidationError"
| "class_of (NotFoundError m) = CNotFoundError"
| "class_of (ConflictError m) = CConflictError"
| "class_of (DatabaseError m oe) = CDatabaseError"

fun message :: "exn \<Rightarrow> string" where
  "message (ValueError m) = m"
| "message (TypeError m) = m"
| "message (JSONDecodeError m) = m"
| "message (OverflowError m) = m"
| "message (KeyError m) = m"
| "message (ValidationError m) = m"
| "message (NotFoundError m) = m"
| "message (ConflictError m) = m"
| "message (DatabaseError m oe) = ''Database error: '' @ m"

definition HTTP_STATUS_OK :: nat where "HTTP_STATUS_OK = 200"
definition HTTP_STATUS_CREATED :: nat where "HTTP_STATUS_CREATED = 201"
definition HTTP_STATUS_BAD_REQUEST :: nat where "HTTP_STATUS_BAD_REQUEST = 400"
definition HTTP_STATUS_NOT_FOUND :: nat where "HTTP_STATUS_NOT_FOUND = 404"
definition HTTP_STATUS_CONFLICT :: nat where "HTTP_STATUS_CONFLICT = 409"
definition HTTP_STATUS_GONE :: nat where "HTTP_STATUS_GONE = 410"
definition HTTP_STATUS_INTERNAL_ERROR :: nat where "HTTP_STATUS_INTERNAL_ERROR = 500"

text \<open>
  \<open>status_code\<close> is the attribute \<open>LambdaError.__init__\<close> stores; the built-in
  exceptions have none.
\<close>

fun status_code :: "exn \<Rightarrow> nat option" where
  "status_code (ValidationError m) = Some HTTP_STATUS_BAD_REQUEST"
| "status_code (NotFoundError m) = Some HTTP_STATUS_NOT_FOUND"
| "status_code (ConflictError m) = Some HTTP_STATUS_CONFLICT"
| "status_code (DatabaseError m oe) = Some HTTP_STATUS_INTERNAL_ERROR"
| "status_code e = None"


section \<open>Instants and \<open>datetime.fromisoformat\<close>\<close>

text \<open>
  A \<open>datetime\<close> value: the calendar fields and \<open>tzinfo\<close>, the UTC offset in
  microseconds, \<open>None\<close> for a naive value. The current instant
  (\<open>datetime.now(timezone.utc)\<close>) is an integer, the microseconds since
  1970-01-01T00:00:00 UTC.
\<close>

record datetime =
  year :: nat
  month :: nat
  day :: nat
  hour :: nat
  minute :: nat
  second :: nat
  microsecond :: nat
  tzinfo :: "int option"

definition is_leap :: "nat \<Rightarrow> bool" where
  "is_leap y = (y mod 4 = 0 \<and> (y mod 100 \<noteq> 0 \<or> y mod 400 = 0))"

definition days_in_month :: "nat \<Rightarrow> nat \<Rightarrow> nat" where
  "days_in_month y m =
     (if m = 2 \<and> is_leap y then 29
      else [0, 31, 28, 31, 30, 31, 30, 31, 31, 30, 31, 30, 31] ! m)"

definition days_before_year :: "nat \<Rightarrow> nat" where
  "days_before_year y = (let p = y - 1 in p * 365 + p div 4 - p div 100 + p div 400)"

definition days_before_month :: "nat \<Rightarrow> nat \<Rightarrow> nat" where
  "days_before_month y m =
     [0, 0, 31, 59, 90, 120, 151, 181, 212, 243, 273, 304, 334] ! m
       + (if m > 2 \<and> is_leap y then 1 else 0)"

definition ymd2ord :: "nat \<Rightarrow> nat \<Rightarrow> nat \<Rightarrow> nat" where
  "ymd2ord y m d = days_before_year y + days_before_month y m + d"

text \<open>
  The instant an aware \<open>datetime\<close> denotes, in microseconds since the epoch (the
  proleptic ordinal of 1970-01-01 is 719163); a naive value is read with offset 0.
  Python compares two aware values by these instants.
\<close>

definition utc_micros :: "datetime \<Rightarrow> int" where
  "utc_micros d =
     ((int (ymd2ord (year d) (month d) (day d)) - 719163) * 86400
        + int (hour d) * 3600 + int (minute d) * 60 + int (second d)) * 1000000
       + int (microsecond d)
       - (case tzinfo d of None \<Rightarrow> 0 | Some off \<Rightarrow> off)"

definition is_digit :: "char \<Rightarrow> bool" where
  "is_digit c = (48 \<le> (of_char c :: nat) \<and> (of_char c :: nat) \<le> 57)"

definition digit_val :: "char \<Rightarrow> nat" where
  "digit_val c = of_char c - 48"

definition parse_digits :: "string \<Rightarrow> nat option" where
  "parse_digits s =
     (if s \<noteq> [] \<and> list_all is_digit s
      then Some (foldl (\<lambda>a c. 10 * a + digit_val c) 0 s) else None)"

text \<open>
  \<open>fromisoformat\<close> follows the format CPython documents for
  \<open>datetime.fromisoformat\<close> as the inverse of \<open>isoformat()\<close>:
  \<open>YYYY-MM-DD[*HH[:MM[:SS[.fff[fff]]]][+HH:MM[:SS[.ffffff]]]]\<close>, where \<open>*\<close> is any one
  character. Any other text, and any field out of range, is a \<open>ValueError\<close>. This is
  the grammar of CPython 3.7 to 3.10; later versions accept further ISO 8601 forms.
\<close>

definition parse_isoformat_date :: "string \<Rightarrow> (nat \<times> nat \<times> nat) option" where
  "parse_isoformat_date dstr =
     (if length dstr \<noteq> 10 \<or> dstr ! 4 \<noteq> CHR ''-'' \<or> dstr ! 7 \<noteq> CHR ''-'' then None
      else case (parse_digits (take 4 dstr), parse_digits (take 2 (drop 5 dstr)),
                 parse_digits (take 2 (drop 8 dstr))) of
             (Some y, Some m, Some d) \<Rightarrow> Some (y, m, d)
           | _ \<Rightarrow> None)"

text \<open>\<open>HH[:MM[:SS[.fff[fff]]]]\<close>: hours, minutes, seconds, microseconds.\<close>

definition parse_hh_mm_ss_ff :: "string \<Rightarrow> (nat \<times> nat \<times> nat \<times> nat) option" where
  "parse_hh_mm_ss_ff tstr =
     (let n = length tstr in
      if n = 2 then
        (case parse_digits tstr of Some h \<Rightarrow> Some (h, 0, 0, 0) | None \<Rightarrow> None)
      else if n = 5 \<and> tstr ! 2 = CHR '':'' then
        (case (parse_digits (take 2 tstr), parse_digits (drop 3 tstr)) of
           (Some h, Some m) \<Rightarrow> Some (h, m, 0, 0) | _ \<Rightarrow> None)
      else if (n = 8 \<or> n = 12 \<or> n = 15) \<and> tstr ! 2 = CHR '':'' \<and> tstr ! 5 = CHR '':''
              \<and> (n = 8 \<or> tstr ! 8 = CHR ''.'') then
        (case (parse_digits (take 2 tstr), parse_digits (take 2 (drop 3 tstr)),
               parse_digits (take 2 (drop 6 tstr)),
               if n = 8 then Some 0 else parse_digits (drop 9 tstr)) of
           (Some h, Some m, Some s, Some f) \<Rightarrow>
              Some (h, m, s, if n = 12 then f * 1000 else f)
         | _ \<Rightarrow> None)
      else None)"

text \<open>
  The time part: the text up to the first sign is the time of day, the rest is the offset
  \<open>HH:MM\<close>, \<open>HH:MM:SS\<close> or \<open>HH:MM:SS.ffffff\<close>. The result carries the offset in
  microseconds.
\<close>

definition is_sign :: "char \<Rightarrow> bool" where
  "is_sign c = (c = CHR ''+'' \<or> c = CHR ''-'')"

definition parse_isoformat_time ::
  "string \<Rightarrow> (nat \<times> nat \<times> nat \<times> nat \<times> int option) option" where
  "parse_isoformat_time tstr =
     (let timestr = takeWhile (\<lambda>c. \<not> is_sign c) tstr;
          rest = dropWhile (\<lambda>c. \<not> is_sign c) tstr
      in case parse_hh_mm_ss_ff timestr of
           None \<Rightarrow> None
         | Some (h, m, s, f) \<Rightarrow>
             (case rest of
                [] \<Rightarrow> Some (h, m, s, f, None)
              | sign # tzstr \<Rightarrow>
                  if length tzstr \<noteq> 5 \<and> length tzstr \<noteq> 8 \<and> length tzstr \<noteq> 15 then None
                  else (case parse_hh_mm_ss_ff tzstr of
                          None \<Rightarrow> None
                        | Some (th, tm, ts, tf) \<Rightarrow>
                            Some (h, m, s, f,
                              Some ((if sign = CHR ''-'' then - 1 else 1)
                                 * (((int th * 3600 + int tm * 60 + int ts) * 1000000)
                                      + int tf))))))"

text \<open>
  The checks of the \<open>datetime\<close> and \<open>timezone\<close> constructors: years 1 to 9999, a day
  of the month, a time of day, an offset strictly between -24 h and 24 h.
\<close>

definition valid_fields ::
  "nat \<Rightarrow> nat \<Rightarrow> nat \<Rightarrow> nat \<Rightarrow> nat \<Rightarrow> nat \<Rightarrow> nat \<Rightarrow> int option \<Rightarrow> bool" where
  "valid_fields y m d hh mm ss us tz =
     (1 \<le> y \<and> y \<le> 9999 \<and> 1 \<le> m \<and> m \<le> 12 \<and> 1 \<le> d \<and> d \<le> days_in_month y m
      \<and> hh < 24 \<and> mm < 60 \<and> ss < 60 \<and> us < 1000000
      \<and> (case tz of None \<Rightarrow> True
          | Some off \<Rightarrow> - 86400000000 < off \<and> off < 86400000000))"

definition fromisoformat :: "string \<Rightarrow> exn + datetime" where
  "fromisoformat date_string =
     (case parse_isoformat_date (take 10 date_string) of
        None \<Rightarrow> Inl (ValueError ''Invalid isoformat string'')
      | Some (y, m, d) \<Rightarrow>
          (case (if length date_string = 10 then Some (0, 0, 0, 0, None)
                 else parse_isoformat_time (drop 11 date_string)) of
             None \<Rightarrow> Inl (ValueError ''Invalid isoformat string'')
           | Some (hh, mm, ss, us, tz) \<Rightarrow>
               if valid_fields y m d hh mm ss us tz
               then Inr \<lparr>year = y, month = m, day = d, hour = hh, minute = mm,
                         second = ss, microsecond = us, tzinfo = tz\<rparr>
               else Inl (ValueError ''field out of range'')))"

section \<open>The expiry evaluator (\<open>commons/url_utils.py\<close>)\<close>

definition endswith :: "string \<Rightarrow> string \<Rightarrow> bool" where
  "endswith s suf = (length suf \<le> length s \<and> drop (length s - length suf) s = suf)"

text \<open>
  The text \<open>is_expired\<close> hands to \<open>fromisoformat\<close>: a final \<open>Z\<close> is replaced by
  \<open>+00:00\<close>; otherwise \<open>+00:00\<close> is appended when the text contains \<open>T\<close> and no
  \<open>+\<close>.
\<close>

definition normalize_expiry :: "string \<Rightarrow> string" where
  "normalize_expiry expiry_date =
     (if endswith expiry_date ''Z'' then butlast expiry_date @ ''+00:00''
      else if CHR ''+'' \<notin> set expiry_date \<and> CHR ''T'' \<in> set expiry_date
           then expiry_date @ ''+00:00''
      else expiry_date)"

text \<open>
  \<open>current_time > expiry\<close> where \<open>current_time\<close> is aware: Python raises
  \<open>TypeError\<close> when \<open>expiry\<close> is naive and compares the instants otherwise.
\<close>

definition now_gt :: "int \<Rightarrow> datetime \<Rightarrow> exn + bool" where
  "now_gt current_time expiry =
     (case tzinfo expiry of
        None \<Rightarrow> Inl (TypeError ''can't compare offset-naive and offset-aware datetimes'')
      | Some off \<Rightarrow> Inr (current_time > utc_micros expiry))"

text \<open>
  \<open>is_expired\<close>, with the reading of the clock as the first argument. The argument is
  \<open>None\<close> for Python's \<open>None\<close>. Both exceptions of the \<open>try\<close> block are caught and give
  \<open>True\<close>.
\<close>

definition is_expired :: "int \<Rightarrow> string option \<Rightarrow> bool" where
  "is_expired current_time expiry_date =
     (case expiry_date of
        None \<Rightarrow> True
      | Some s \<Rightarrow>
          if s = [] then True
          else (case fromisoformat (normalize_expiry s) of
                  Inl e \<Rightarrow> True
                | Inr expiry \<Rightarrow>
                    (case now_gt current_time
                            (if tzinfo expiry = None then expiry\<lparr>tzinfo := Some 0\<rparr>
                             else expiry) of
                       Inl e \<Rightarrow> True
                     | Inr b \<Rightarrow> b)))"

section \<open>Library functions and the clock\<close>

text \<open>
  Functions of Python's library are parameters of the model: \<open>sha256\<close>, the SHA-256
  digest of a text as a 256-bit number; \<open>timestamp_str\<close>, the text
  \<open>str(t.timestamp())\<close> of an instant (a floating-point conversion);
  \<open>json_loads\<close>, \<open>json.loads\<close> on the text of a JSON object whose values are
  texts (\<open>None\<close> is its \<open>JSONDecodeError\<close>); and the matches of the two regular
  expressions of \<open>is_valid_url\<close>. Texts are byte strings, so \<open>encode('utf-8')\<close> is
  the identity.
\<close>

record pylib =
  sha256 :: "string \<Rightarrow> 256 word"
  timestamp_str :: "int \<Rightarrow> string"
  json_loads :: "string \<Rightarrow> (string \<rightharpoonup> string) option"
  private_ip_pattern_match :: "string \<Rightarrow> bool"
  url_pattern_match :: "string \<Rightarrow> bool"

definition hexchars :: string where
  "hexchars = ''0123456789abcdef''"

definition hex_of_byte :: "8 word \<Rightarrow> string" where
  "hex_of_byte b = [hexchars ! (unat b div 16), hexchars ! (unat b mod 16)]"

text \<open>The 32 bytes of a digest, most significant first, and \<open>hexdigest()\<close>.\<close>

definition digest_bytes :: "256 word \<Rightarrow> 8 word list" where
  "digest_bytes w = map (\<lambda>i. ucast (drop_bit (8 * (31 - i)) w)) [0..<32]"

definition hexdigest :: "256 word \<Rightarrow> string" where
  "hexdigest w = concat (map hex_of_byte (digest_bytes w))"

definition hex_val :: "char \<Rightarrow> nat option" where
  "hex_val c =
     (let n = (of_char c :: nat) in
      if 48 \<le> n \<and> n \<le> 57 then Some (n - 48)
      else if 97 \<le> n \<and> n \<le> 102 then Some (n - 87)
      else if 65 \<le> n \<and> n \<le> 70 then Some (n - 55)
      else None)"

text \<open>
  \<open>bytes.fromhex\<close> on a text of hexadecimal digits (\<open>None\<close> is its \<open>ValueError\<close>);
  the white space it would skip does not occur in a digest.
\<close>

fun fromhex :: "string \<Rightarrow> 8 word list option" where
  "fromhex [] = Some []"
| "fromhex [c] = None"
| "fromhex (c # d # rest) =
     (case (hex_val c, hex_val d, fromhex rest) of
        (Some h, Some l, Some bs) \<Rightarrow> Some (of_nat (h * 16 + l) # bs)
      | _ \<Rightarrow> None)"

definition b64_alphabet :: string where
  "b64_alphabet = ''ABCDEFGHIJKLMNOPQRSTUVWXYZabcdefghijklmnopqrstuvwxyz0123456789-_''"

definition b64char :: "nat \<Rightarrow> char" where
  "b64char n = b64_alphabet ! n"

text \<open>\<open>base64.urlsafe_b64encode\<close>: three bytes give four characters, padded with \<open>=\<close>.\<close>

fun urlsafe_b64encode :: "8 word list \<Rightarrow> string" where
  "urlsafe_b64encode (a # b # c # rest) =
     [b64char (unat a div 4), b64char ((unat a mod 4) * 16 + unat b div 16),
      b64char ((unat b mod 16) * 4 + unat c div 64), b64char (unat c mod 64)]
       @ urlsafe_b64encode rest"
| "urlsafe_b64encode [a, b] =
     [b64char (unat a div 4), b64char ((unat a mod 4) * 16 + unat b div 16),
      b64char ((unat b mod 16) * 4), CHR ''='']"
| "urlsafe_b64encode [a] =
     [b64char (unat a div 4), b64char ((unat a mod 4) * 16), CHR ''='', CHR ''='']"
| "urlsafe_b64encode [] = []"

text \<open>
  The state a request runs against. \<open>clock\<close> lists the successive readings of
  \<open>datetime.now(timezone.utc)\<close> (microseconds since the epoch) and \<open>reads\<close> counts the
  readings taken. \<open>table\<close> is the DynamoDB table, its rows in the order the index returns
  them, \<open>None\<close> when \<open>DYNAMODB_TABLE_NAME\<close> is not set; \<open>BASE_URL\<close> is the
  environment variable of that name. \<open>faults\<close> says which store
  calls fail with a \<open>ClientError\<close> of the service's own (throttling, outage), by the
  number of the call, and \<open>calls\<close> is the log of the store calls made.
\<close>

record url_item =
  shortId :: string
  longUrl :: "string option"
  createdAt :: "string option"
  expiryDate :: "string option"
  ttlTimestamp :: "int option"
  clickCount :: "int option"
  lastAccessedAt :: "string option"

datatype store_call =
    GetItem string
  | PutItem url_item
  | Query string int
  | UpdateItem string string

record world =
  clock :: "nat \<Rightarrow> int"
  reads :: nat
  BASE_URL :: "string option"
  table :: "url_item list option"
  faults :: "nat \<Rightarrow> client_error option"
  calls :: "store_call list"

definition now :: "world \<Rightarrow> int \<times> world" where
  "now w = (clock w (reads w), w\<lparr>reads := Suc (reads w)\<rparr>)"

section \<open>The short code generator (\<open>commons/url_utils.py\<close>)\<close>

definition SHORT_URL_LENGTH :: nat where "SHORT_URL_LENGTH = 6"
definition DEFAULT_EXPIRY_DAYS :: int where "DEFAULT_EXPIRY_DAYS = 60"
definition HASH_TRUNCATE_LENGTH :: nat where "HASH_TRUNCATE_LENGTH = 16"
definition EXTENDED_HASH_LENGTH :: nat where "EXTENDED_HASH_LENGTH = 24"
definition CUSTOM_SUFFIX_MAX_LENGTH :: nat where "CUSTOM_SUFFIX_MAX_LENGTH = 20"
definition CUSTOM_SUFFIX_MIN_LENGTH :: nat where "CUSTOM_SUFFIX_MIN_LENGTH = 3"

text \<open>The character class \<open>[a-zA-Z0-9_-]\<close>.\<close>

definition is_suffix_char :: "char \<Rightarrow> bool" where
  "is_suffix_char c =
     (let n = (of_char c :: nat) in
      (97 \<le> n \<and> n \<le> 122) \<or> (65 \<le> n \<and> n \<le> 90) \<or> (48 \<le> n \<and> n \<le> 57)
      \<or> c = CHR ''_'' \<or> c = CHR ''-'')"

text \<open>
  \<open>re.compile(r'^[a-zA-Z0-9_-]+$').match(suffix)\<close>: one or more characters of the
  class up to the end of the text. Python's \<open>$\<close> also matches just before a newline
  that ends the text.
\<close>

definition suffix_pattern_match :: "string \<Rightarrow> bool" where
  "suffix_pattern_match s =
     ((s \<noteq> [] \<and> list_all is_suffix_char s)
      \<or> (s \<noteq> [] \<and> last s = CHR 0x0A \<and> butlast s \<noteq> []
          \<and> list_all is_suffix_char (butlast s)))"

text \<open>\<open>_is_valid_custom_suffix\<close>.\<close>

definition is_valid_custom_suffix :: "string \<Rightarrow> bool" where
  "is_valid_custom_suffix suffix =
     (if suffix = [] then False
      else if length suffix < CUSTOM_SUFFIX_MIN_LENGTH
              \<or> length suffix > CUSTOM_SUFFIX_MAX_LENGTH then False
      else suffix_pattern_match suffix)"

text \<open>
  \<open>generate_short_url\<close>. \<open>if custom_suffix:\<close> holds for a non-empty text only, so
  \<open>None\<close> and the empty text both take the hashing path, which reads the clock once.
\<close>

definition generate_short_url ::
  "pylib \<Rightarrow> string \<Rightarrow> string option \<Rightarrow> world \<Rightarrow> (exn + string) \<times> world" where
  "generate_short_url lib long_url custom_suffix w =
     (case custom_suffix of
        Some (c # cs) \<Rightarrow>
          (if \<not> is_valid_custom_suffix (c # cs)
           then Inl (ValueError (''Custom suffix must be 3-20 alphanumeric characters, got: ''
                                  @ [CHR 0x27] @ (c # cs) @ [CHR 0x27]))
           else Inr (c # cs), w)
      | _ \<Rightarrow>
          (let (t, w') = now w;
               timestamp = timestamp_str lib t;
               hash_input = long_url @ timestamp;
               hash_hex = hexdigest (sha256 lib hash_input)
           in (case fromhex (take HASH_TRUNCATE_LENGTH hash_hex) of
                 None \<Rightarrow> Inl (ValueError ''non-hexadecimal number found in fromhex() arg'')
               | Some bs \<Rightarrow>
                   (let clean_b64 = filter (\<lambda>c. c \<noteq> CHR ''='') (urlsafe_b64encode bs)
                    in if length clean_b64 < SHORT_URL_LENGTH
                       then (case fromhex (take EXTENDED_HASH_LENGTH hash_hex) of
                               None \<Rightarrow>
                                 Inl (ValueError
                                        ''non-hexadecimal number found in fromhex() arg'')
                             | Some bs' \<Rightarrow>
                                 Inr (take SHORT_URL_LENGTH
                                        (filter (\<lambda>c. c \<noteq> CHR ''='')
                                           (urlsafe_b64encode bs'))))
                       else Inr (take SHORT_URL_LENGTH clean_b64)),
               w')))"

section \<open>Formatting instants (\<open>isoformat\<close>) and expiry dates\<close>

definition digit_char :: "nat \<Rightarrow> char" where
  "digit_char n = ''0123456789'' ! (n mod 10)"

text \<open>\<open>'%02d' % n\<close>, \<open>'%04d' % n\<close> and \<open>'%06d' % n\<close> for \<open>n\<close> of at most that many digits.\<close>

definition zpad2 :: "nat \<Rightarrow> string" where
  "zpad2 n = [digit_char (n div 10), digit_char n]"

definition zpad4 :: "nat \<Rightarrow> string" where
  "zpad4 n = [digit_char (n div 1000), digit_char (n div 100), digit_char (n div 10),
              digit_char n]"

definition zpad6 :: "nat \<Rightarrow> string" where
  "zpad6 n = [digit_char (n div 100000), digit_char (n div 10000), digit_char (n div 1000),
              digit_char (n div 100), digit_char (n div 10), digit_char n]"

text \<open>\<open>str(n)\<close> for a natural number and for an integer.\<close>

fun str_nat :: "nat \<Rightarrow> string" where
  "str_nat n = (if n < 10 then [digit_char n] else str_nat (n div 10) @ [digit_char n])"

declare str_nat.simps [simp del]

definition str_int :: "int \<Rightarrow> string" where
  "str_int i = (if i < 0 then CHR ''-'' # str_nat (nat (- i)) else str_nat (nat i))"

text \<open>The inverse of \<open>ymd2ord\<close>, as Python's \<open>_ord2ymd\<close> computes it.\<close>

definition ord2ymd :: "nat \<Rightarrow> nat \<times> nat \<times> nat" where
  "ord2ymd ordinal =
     (let n = ordinal - 1;
          n400 = n div 146097; n = n mod 146097;
          n100 = n div 36524; n = n mod 36524;
          n4 = n div 1461; n = n mod 1461;
          n1 = n div 365; n = n mod 365;
          y = n400 * 400 + 1 + n100 * 100 + n4 * 4 + n1
      in if n1 = 4 \<or> n100 = 4 then (y - 1, 12, 31)
         else (let leapyear = (n1 = 3 \<and> (n4 \<noteq> 24 \<or> n100 = 3));
                   m = (n + 50) div 32;
                   preceding = [0, 0, 31, 59, 90, 120, 151, 181, 212, 243, 273, 304, 334] ! m
                                 + (if m > 2 \<and> leapyear then 1 else 0)
               in if preceding > n
                  then (y, m - 1,
                        n - (preceding
                               - ([0, 31, 28, 31, 30, 31, 30, 31, 31, 30, 31, 30, 31] ! (m - 1)
                                    + (if m - 1 = 2 \<and> leapyear then 1 else 0))) + 1)
                  else (y, m, n - preceding + 1)))"

text \<open>
  The aware \<open>datetime\<close> in UTC of an instant between 0001-01-01 and 9999-12-31, which
  is what \<open>datetime.now(timezone.utc)\<close> and sums of it with a \<open>timedelta\<close> are.
\<close>

definition MAX_INSTANT :: int where
  "MAX_INSTANT = 253402300799999999"

definition utc_datetime :: "int \<Rightarrow> datetime" where
  "utc_datetime t =
     (let days = t div 86400000000;
          r = nat (t mod 86400000000);
          (y, m, d) = ord2ymd (nat (days + 719163))
      in \<lparr>year = y, month = m, day = d,
          hour = r div 3600000000, minute = r div 60000000 mod 60,
          second = r div 1000000 mod 60, microsecond = r mod 1000000,
          tzinfo = Some 0\<rparr>)"

text \<open>The UTC offset as \<open>isoformat\<close> writes it: \<open>+HH:MM[:SS[.ffffff]]\<close>.\<close>

definition format_offset :: "int \<Rightarrow> string" where
  "format_offset off =
     (let a = nat (abs off);
          hh = a div 3600000000; mm = a div 60000000 mod 60;
          ss = a div 1000000 mod 60; us = a mod 1000000
      in (if off < 0 then ''-'' else ''+'') @ zpad2 hh @ '':'' @ zpad2 mm
           @ (if ss \<noteq> 0 \<or> us \<noteq> 0 then '':'' @ zpad2 ss else [])
           @ (if us \<noteq> 0 then ''.'' @ zpad6 us else []))"

definition isoformat :: "datetime \<Rightarrow> string" where
  "isoformat d =
     zpad4 (year d) @ ''-'' @ zpad2 (month d) @ ''-'' @ zpad2 (day d) @ ''T''
       @ zpad2 (hour d) @ '':'' @ zpad2 (minute d) @ '':'' @ zpad2 (second d)
       @ (if microsecond d \<noteq> 0 then ''.'' @ zpad6 (microsecond d) else [])
       @ (case tzinfo d of None \<Rightarrow> [] | Some off \<Rightarrow> format_offset off)"

text \<open>\<open>get_current_timestamp\<close> (\<open>commons/lambda_utils.py\<close>).\<close>

definition get_current_timestamp :: "world \<Rightarrow> string \<times> world" where
  "get_current_timestamp w = (let (t, w') = now w in (isoformat (utc_datetime t), w'))"

text \<open>
  \<open>calculate_expiry_date\<close>. Adding the \<open>timedelta\<close> raises \<open>OverflowError\<close> past
  the last instant of the year 9999.
\<close>

definition calculate_expiry_date :: "int \<Rightarrow> world \<Rightarrow> (exn + string) \<times> world" where
  "calculate_expiry_date days w =
     (if days \<le> 0 then (Inl (ValueError (''Days must be positive, got: '' @ str_int days)), w)
      else (let (t, w') = now w;
                expiry = t + days * 86400000000
            in if expiry > MAX_INSTANT then (Inl (OverflowError ''date value out of range''), w')
               else (Inr (isoformat (utc_datetime expiry)), w')))"

text \<open>
  \<open>is_expired\<close> as a step on the state: the clock is read once, after the text has
  parsed.
\<close>

definition reads_clock :: "string option \<Rightarrow> bool" where
  "reads_clock expiry_date =
     (case expiry_date of
        None \<Rightarrow> False
      | Some s \<Rightarrow> s \<noteq> [] \<and> (case fromisoformat (normalize_expiry s) of
                                Inl e \<Rightarrow> False | Inr expiry \<Rightarrow> True))"

definition is_expired_at :: "string option \<Rightarrow> world \<Rightarrow> bool \<times> world" where
  "is_expired_at expiry_date w =
     (is_expired (clock w (reads w)) expiry_date,
      if reads_clock expiry_date then snd (now w) else w)"

text \<open>
  \<open>int(t.timestamp())\<close>: the whole seconds of an instant, truncated towards zero.
  The conversion is exact here; Python's goes through a floating-point number.
\<close>

definition int_seconds :: "int \<Rightarrow> int" where
  "int_seconds t = (if t \<ge> 0 then t div 1000000 else - ((- t) div 1000000))"

section \<open>The mapping store (\<open>commons/dynamodb_utils.py\<close>)\<close>

text \<open>
  The four operations of the boto3 table the code calls. Each is logged; each fails with
  the \<open>ClientError\<close> the service injects at this call, if any.
\<close>

definition fault_now :: "world \<Rightarrow> client_error option" where
  "fault_now w = faults w (length (calls w))"

definition log_call :: "store_call \<Rightarrow> world \<Rightarrow> world" where
  "log_call c w = w\<lparr>calls := calls w @ [c]\<rparr>"

definition has_key :: "string \<Rightarrow> url_item list \<Rightarrow> bool" where
  "has_key k rows = list_ex (\<lambda>r. shortId r = k) rows"

text \<open>\<open>table.get_item(Key={'shortId': short_id})\<close>; the result is \<open>response.get('Item')\<close>.\<close>

definition get_item ::
  "string \<Rightarrow> url_item list \<Rightarrow> world \<Rightarrow> (client_error + url_item option) \<times> world" where
  "get_item k rows w =
     (case fault_now w of
        Some e \<Rightarrow> (Inl e, log_call (GetItem k) w)
      | None \<Rightarrow> (Inr (find (\<lambda>r. shortId r = k) rows), log_call (GetItem k) w))"

text \<open>
  \<open>table.put_item(Item=item, ConditionExpression='attribute_not_exists(shortId)')\<close>:
  the atomic insert-if-absent.
\<close>

definition put_item ::
  "url_item \<Rightarrow> url_item list \<Rightarrow> world \<Rightarrow> (client_error + unit) \<times> world" where
  "put_item item rows w =
     (case fault_now w of
        Some e \<Rightarrow> (Inl e, log_call (PutItem item) w)
      | None \<Rightarrow>
          if has_key (shortId item) rows
          then (Inl (ClientError ''ConditionalCheckFailedException''
                       ''The conditional request failed''),
                log_call (PutItem item) w)
          else (Inr (), (log_call (PutItem item) w)\<lparr>table := Some (rows @ [item])\<rparr>))"

text \<open>
  \<open>table.query\<close> on the index \<open>longUrl-index\<close> with the key condition
  \<open>longUrl = long_url\<close> and the filter \<open>ttlTimestamp > n\<close>; an item without
  \<open>ttlTimestamp\<close> does not pass the filter. The result is \<open>response.get('Items', [])\<close>.
\<close>

definition query ::
  "string \<Rightarrow> int \<Rightarrow> url_item list \<Rightarrow> world \<Rightarrow> (client_error + url_item list) \<times> world" where
  "query long_url n rows w =
     (case fault_now w of
        Some e \<Rightarrow> (Inl e, log_call (Query long_url n) w)
      | None \<Rightarrow>
          (Inr (filter (\<lambda>r. longUrl r = Some long_url
                            \<and> (case ttlTimestamp r of None \<Rightarrow> False | Some t \<Rightarrow> t > n)) rows),
           log_call (Query long_url n) w))"

text \<open>
  \<open>table.update_item\<close> with
  \<open>SET clickCount = if_not_exists(clickCount, :zero) + :inc, lastAccessedAt = :timestamp\<close>;
  DynamoDB creates the item when the key is not there.
\<close>

definition bump_click :: "string \<Rightarrow> url_item \<Rightarrow> url_item" where
  "bump_click ts r =
     r\<lparr>clickCount := Some ((case clickCount r of None \<Rightarrow> 0 | Some n \<Rightarrow> n) + 1),
       lastAccessedAt := Some ts\<rparr>"

definition update_item ::
  "string \<Rightarrow> string \<Rightarrow> url_item list \<Rightarrow> world \<Rightarrow> (client_error + unit) \<times> world" where
  "update_item k ts rows w =
     (case fault_now w of
        Some e \<Rightarrow> (Inl e, log_call (UpdateItem k ts) w)
      | None \<Rightarrow>
          (Inr (),
           (log_call (UpdateItem k ts) w)
             \<lparr>table := Some
                (if has_key k rows
                 then map (\<lambda>r. if shortId r = k then bump_click ts r else r) rows
                 else rows @ [\<lparr>shortId = k, longUrl = None, createdAt = None,
                                expiryDate = None, ttlTimestamp = None,
                                clickCount = Some 1, lastAccessedAt = Some ts\<rparr>])\<rparr>))"

text \<open>\<open>_handle_client_error\<close>: the exception it raises.\<close>

definition handle_client_error :: "client_error \<Rightarrow> string \<Rightarrow> exn" where
  "handle_client_error error operation =
     (if error_code error = ''ConditionalCheckFailedException''
      then ConflictError ''Resource already exists or condition not met''
      else if error_code error = ''ResourceNotFoundException''
      then NotFoundError ''Resource not found''
      else DatabaseError (operation @ '' failed: '' @ error_message error) (Some error))"

definition get_url_by_short_id :: "string \<Rightarrow> world \<Rightarrow> (exn + url_item option) \<times> world" where
  "get_url_by_short_id short_id w =
     (case table w of
        None \<Rightarrow> (Inl (DatabaseError ''DynamoDB table not configured'' None), w)
      | Some rows \<Rightarrow>
          (case get_item short_id rows w of
             (Inl e, w') \<Rightarrow> (Inl (handle_client_error e ''get_item''), w')
           | (Inr item, w') \<Rightarrow> (Inr item, w')))"

text \<open>
  The loop of \<open>find_existing_url\<close>: the first item, in the order returned, that
  \<open>is_expired(item.get('expiryDate', ''))\<close> does not report expired.
\<close>

fun first_not_expired :: "url_item list \<Rightarrow> world \<Rightarrow> url_item option \<times> world" where
  "first_not_expired [] w = (None, w)"
| "first_not_expired (item # items) w =
     (let (expired, w') =
            is_expired_at (Some (case expiryDate item of None \<Rightarrow> [] | Some s \<Rightarrow> s)) w
      in if \<not> expired then (Some item, w') else first_not_expired items w')"

definition find_existing_url :: "string \<Rightarrow> world \<Rightarrow> (exn + url_item option) \<times> world" where
  "find_existing_url long_url w =
     (case table w of
        None \<Rightarrow> (Inl (DatabaseError ''DynamoDB table not configured'' None), w)
      | Some rows \<Rightarrow>
          (let (t, w0) = now w in
           case query long_url (int_seconds t) rows w0 of
             (Inl e, w1) \<Rightarrow> (Inl (handle_client_error e ''query_existing_url''), w1)
           | (Inr items, w1) \<Rightarrow>
               (let (found, w2) = first_not_expired items w1 in (Inr found, w2))))"

definition create_url_mapping ::
  "string \<Rightarrow> string \<Rightarrow> string \<Rightarrow> int \<Rightarrow> world \<Rightarrow> (exn + url_item) \<times> world" where
  "create_url_mapping short_id long_url expiry_date ttl_timestamp w =
     (case table w of
        None \<Rightarrow> (Inl (DatabaseError ''DynamoDB table not configured'' None), w)
      | Some rows \<Rightarrow>
          (let (ts, w0) = get_current_timestamp w;
               item = \<lparr>shortId = short_id, longUrl = Some long_url, createdAt = Some ts,
                       expiryDate = Some expiry_date, ttlTimestamp = Some ttl_timestamp,
                       clickCount = Some 0, lastAccessedAt = None\<rparr>
           in case put_item item rows w0 of
                (Inl e, w1) \<Rightarrow> (Inl (handle_client_error e ''create_url_mapping''), w1)
              | (Inr u, w1) \<Rightarrow> (Inr item, w1)))"

definition update_click_count :: "string \<Rightarrow> world \<Rightarrow> bool \<times> world" where
  "update_click_count short_id w =
     (case table w of
        None \<Rightarrow> (False, w)
      | Some rows \<Rightarrow>
          (let (ts, w0) = get_current_timestamp w in
           case update_item short_id ts rows w0 of
             (Inl e, w1) \<Rightarrow> (False, w1)
           | (Inr u, w1) \<Rightarrow> (True, w1)))"

section \<open>The creation orchestrator (\<open>url_shortener_handlers/getOrCreateShortURL.py\<close>)\<close>

definition MAX_COLLISION_RETRIES :: nat where
  "MAX_COLLISION_RETRIES = 3"

text \<open>Python's truth value of an optional text: false for \<open>None\<close> and for \<open>''\<close>.\<close>

definition truthy :: "string option \<Rightarrow> bool" where
  "truthy s = (case s of Some (c # cs) \<Rightarrow> True | _ \<Rightarrow> False)"

text \<open>\<open>s.replace('Z', '+00:00')\<close>: every \<open>Z\<close> is replaced.\<close>

definition replace_Z :: "string \<Rightarrow> string" where
  "replace_Z s = concat (map (\<lambda>c. if c = CHR ''Z'' then ''+00:00'' else [c]) s)"

text \<open>
  The choice of the short id of one attempt: the custom suffix on attempt 0, a generated
  code otherwise, with \<open>_<attempt>_<timestamp>\<close> appended to the hashed text on
  retries.
\<close>

definition attempt_short_id ::
  "pylib \<Rightarrow> string \<Rightarrow> string option \<Rightarrow> nat \<Rightarrow> world \<Rightarrow> (exn + string) \<times> world" where
  "attempt_short_id lib long_url custom_suffix attempt w =
     (if truthy custom_suffix \<and> attempt = 0
      then generate_short_url lib long_url custom_suffix w
      else (let (entropy_suffix, w') =
                  (if attempt > 0
                   then (let (ts, w'') = get_current_timestamp w
                         in (''_'' @ str_nat attempt @ ''_'' @ ts, w''))
                   else ([], w))
            in generate_short_url lib (long_url @ entropy_suffix) None w'))"

text \<open>
  The \<open>for attempt in range(MAX_COLLISION_RETRIES)\<close> loop, from \<open>attempt\<close> on. An
  exception other than \<open>ConflictError\<close> leaves the loop as it is; the last line is the
  \<open>raise\<close> after the loop.
\<close>

function retry_loop ::
  "pylib \<Rightarrow> string \<Rightarrow> string option \<Rightarrow> string \<Rightarrow> int \<Rightarrow> nat \<Rightarrow> world
     \<Rightarrow> (exn + string \<times> url_item) \<times> world" where
  "retry_loop lib long_url custom_suffix expiry_date ttl_timestamp attempt w =
     (if attempt < MAX_COLLISION_RETRIES
      then (case attempt_short_id lib long_url custom_suffix attempt w of
              (Inl e, w1) \<Rightarrow> (Inl e, w1)
            | (Inr short_id, w1) \<Rightarrow>
                (case create_url_mapping short_id long_url expiry_date ttl_timestamp w1 of
                   (Inr created_item, w2) \<Rightarrow> (Inr (short_id, created_item), w2)
                 | (Inl e, w2) \<Rightarrow>
                     if class_of e = CConflictError
                     then (if truthy custom_suffix then (Inl e, w2)
                           else if attempt = MAX_COLLISION_RETRIES - 1
                           then (Inl (DatabaseError
                                   ''Unable to generate unique short URL after multiple attempts'' None),
                                 w2)
                           else retry_loop lib long_url custom_suffix expiry_date ttl_timestamp
                                  (Suc attempt) w2)
                     else (Inl e, w2)))
      else (Inl (DatabaseError ''Unexpected error in short URL creation'' None), w))"
  by pat_completeness auto
termination
  by (relation "measure (\<lambda>(lib, long_url, custom_suffix, expiry_date, ttl_timestamp, attempt, w).
                   MAX_COLLISION_RETRIES - attempt)") auto

declare retry_loop.simps [simp del]

text \<open>
  The first lines of \<open>create_short_url_with_retry\<close>: the expiry date and the TTL
  timestamp, computed once, before the loop.
\<close>

definition expiry_and_ttl :: "world \<Rightarrow> (exn + string \<times> int) \<times> world" where
  "expiry_and_ttl w =
     (case calculate_expiry_date DEFAULT_EXPIRY_DAYS w of
        (Inl e, w0) \<Rightarrow> (Inl e, w0)
      | (Inr expiry_date, w0) \<Rightarrow>
          (case fromisoformat (if endswith expiry_date ''Z'' then replace_Z expiry_date
                               else expiry_date) of
             Inl e \<Rightarrow> (Inl e, w0)
           | Inr parsed \<Rightarrow>
               (let expiry_datetime =
                      (if tzinfo parsed = None then parsed\<lparr>tzinfo := Some 0\<rparr> else parsed);
                    ttl_timestamp = int_seconds (utc_micros expiry_datetime)
                in (Inr (expiry_date, ttl_timestamp), w0))))"

definition create_short_url_with_retry ::
  "pylib \<Rightarrow> string \<Rightarrow> string option \<Rightarrow> world \<Rightarrow> (exn + string \<times> url_item) \<times> world" where
  "create_short_url_with_retry lib long_url custom_suffix w =
     (case expiry_and_ttl w of
        (Inl e, w0) \<Rightarrow> (Inl e, w0)
      | (Inr (expiry_date, ttl_timestamp), w0) \<Rightarrow>
          retry_loop lib long_url custom_suffix expiry_date ttl_timestamp 0 w0)"

section \<open>Requests and responses (\<open>commons/lambda_utils.py\<close>)\<close>

text \<open>
  What the handlers read of the API Gateway event: the path parameters, the body (absent,
  a JSON text, or a dictionary of texts), the \<open>Host\<close> header and the stage of the
  request context. \<open>pathParameters\<close> is a dictionary; an event whose
  \<open>pathParameters\<close> is \<open>null\<close> is not represented.
\<close>

datatype body_val = BodyAbsent | BodyText string | BodyDict "string \<rightharpoonup> string"

record event =
  pathParameters :: "string \<rightharpoonup> string"
  body :: body_val
  host :: "string option"
  stage :: "string option"

datatype jvalue = JStr string | JBool bool | JNull

text \<open>
  A response: the status code, the headers, and the body, either the dictionary handed to
  \<open>json.dumps\<close> or a plain text.
\<close>

datatype resp_body = JsonBody "(string \<times> jvalue) list" | TextBody string

record response =
  statusCode :: nat
  headers :: "(string \<times> string) list"
  resp :: resp_body

definition CORS_HEADERS :: "(string \<times> string) list" where
  "CORS_HEADERS =
     [(''Access-Control-Allow-Origin'', ''*''),
      (''Access-Control-Allow-Methods'', ''GET, POST, OPTIONS''),
      (''Access-Control-Allow-Headers'', ''Content-Type, Authorization'')]"

definition JSON_HEADERS :: "(string \<times> string) list" where
  "JSON_HEADERS = (''Content-Type'', ''application/json'') # CORS_HEADERS"

definition REDIRECT_HEADERS :: "(string \<times> string) list" where
  "REDIRECT_HEADERS =
     [(''Cache-Control'', ''no-cache, no-store, must-revalidate''),
      (''Pragma'', ''no-cache''), (''Expires'', ''0'')]"

definition create_json_response :: "nat \<Rightarrow> (string \<times> jvalue) list \<Rightarrow> response" where
  "create_json_response status b =
     \<lparr>statusCode = status, headers = JSON_HEADERS, resp = JsonBody b\<rparr>"

definition create_redirect_response :: "string \<Rightarrow> response" where
  "create_redirect_response location =
     \<lparr>statusCode = 302, headers = REDIRECT_HEADERS @ [(''Location'', location)],
      resp = TextBody []\<rparr>"

text \<open>\<open>create_error_response\<close>; its logging and its metric are not modelled.\<close>

definition create_error_response :: "nat \<Rightarrow> string \<Rightarrow> response" where
  "create_error_response status msg =
     create_json_response status [(''error'', JStr msg)]"

definition get_base_url :: "event \<Rightarrow> world \<Rightarrow> string" where
  "get_base_url ev w =
     (case BASE_URL w of
        Some (c # cs) \<Rightarrow> c # cs
      | _ \<Rightarrow> ''https://'' @ (case host ev of None \<Rightarrow> ''unknown-host'' | Some h \<Rightarrow> h)
               @ ''/'' @ (case stage ev of None \<Rightarrow> ''unknown-stage'' | Some s \<Rightarrow> s))"

text \<open>\<open>s.split('/')\<close>.\<close>

fun split_slash :: "string \<Rightarrow> string list" where
  "split_slash [] = [[]]"
| "split_slash (c # cs) =
     (if c = CHR ''/'' then [] # split_slash cs
      else (case split_slash cs of [] \<Rightarrow> [[c]] | p # ps \<Rightarrow> (c # p) # ps))"

definition extract_path_parameters ::
  "event \<Rightarrow> string option \<times> string option \<times> string option" where
  "extract_path_parameters ev =
     (let path_params = pathParameters ev;
          short_id = path_params ''shortId''
      in case path_params ''proxy'' of
           None \<Rightarrow> (short_id, None, None)
         | Some proxy_path \<Rightarrow>
             (let path_parts = filter (\<lambda>part. part \<noteq> []) (split_slash proxy_path)
              in if length path_parts \<ge> 4
                 then (if path_parts ! 0 = ''stage'' \<and> path_parts ! 2 = ''tenant''
                       then (if length path_parts > 4
                             then (if last path_parts \<noteq> ''shorten''
                                   then Some (last path_parts) else None)
                             else short_id,
                             Some (path_parts ! 1), Some (path_parts ! 3))
                       else (short_id, None, None))
                 else if length path_parts = 1 then (Some (path_parts ! 0), None, None)
                 else (short_id, None, None)))"

definition parse_request_body :: "pylib \<Rightarrow> event \<Rightarrow> exn + (string \<rightharpoonup> string)" where
  "parse_request_body lib ev =
     (case body ev of
        BodyAbsent \<Rightarrow> Inl (ValueError ''Request body is required'')
      | BodyText s \<Rightarrow>
          if s = [] then Inl (ValueError ''Request body is required'')
          else (case json_loads lib s of
                  None \<Rightarrow> Inl (JSONDecodeError ''Invalid JSON in request body'')
                | Some d \<Rightarrow> Inr d)
      | BodyDict d \<Rightarrow>
          if d = Map.empty then Inl (ValueError ''Request body is required'') else Inr d)"

text \<open>
  \<open>is_valid_url\<close> (\<open>commons/url_utils.py\<close>); the two regular expressions are matched by
  the library.
\<close>

definition is_valid_url :: "pylib \<Rightarrow> string \<Rightarrow> bool" where
  "is_valid_url lib url =
     (if url = [] \<or> length url > 2048 then False
      else if private_ip_pattern_match lib url then False
      else url_pattern_match lib url)"

section \<open>The create-or-get handler\<close>

text \<open>
  The \<open>try\<close> block of \<open>lambda_handler\<close> in \<open>getOrCreateShortURL.py\<close>. Its first
  call, \<open>extract_path_parameters\<close>, changes nothing and its result is only logged, so
  it is left out, as are the log lines and the metrics.
\<close>

definition create_or_get_try :: "pylib \<Rightarrow> event \<Rightarrow> world \<Rightarrow> (exn + response) \<times> world" where
  "create_or_get_try lib ev w =
     (case parse_request_body lib ev of
        Inl e \<Rightarrow> (Inl e, w)
      | Inr b \<Rightarrow>
          (let long_url = b ''longUrl''; custom_suffix = b ''customSuffix'' in
           if \<not> truthy long_url
           then (Inl (ValidationError ''Missing required field: longUrl''), w)
           else if \<not> is_valid_url lib (the long_url)
           then (Inl (ValidationError ''Invalid URL format''), w)
           else (case find_existing_url (the long_url) w of
                   (Inl e, w1) \<Rightarrow> (Inl e, w1)
                 | (Inr (Some existing_item), w1) \<Rightarrow>
                     (case (longUrl existing_item, expiryDate existing_item) of
                        (Some l, Some x) \<Rightarrow>
                          (Inr (create_json_response HTTP_STATUS_OK
                                  [(''shortUrl'',
                                    JStr (get_base_url ev w1 @ ''/'' @ shortId existing_item)),
                                   (''longUrl'', JStr l), (''expiryDate'', JStr x),
                                   (''created'', JBool False)]), w1)
                      | (None, _) \<Rightarrow> (Inl (KeyError ''longUrl''), w1)
                      | (_, None) \<Rightarrow> (Inl (KeyError ''expiryDate''), w1))
                 | (Inr None, w1) \<Rightarrow>
                     (case create_short_url_with_retry lib (the long_url) custom_suffix w1 of
                        (Inl e, w2) \<Rightarrow> (Inl e, w2)
                      | (Inr (short_id, created_item), w2) \<Rightarrow>
                          (case expiryDate created_item of
                             None \<Rightarrow> (Inl (KeyError ''expiryDate''), w2)
                           | Some x \<Rightarrow>
                               (Inr (create_json_response HTTP_STATUS_CREATED
                                       [(''shortUrl'',
                                         JStr (get_base_url ev w2 @ ''/'' @ short_id)),
                                        (''longUrl'', JStr (the long_url)),
                                        (''expiryDate'', JStr x),
                                        (''created'', JBool True)]), w2))))))"

text \<open>
  The \<open>except\<close> clauses of that handler, in their order: \<open>ValidationError\<close>,
  \<open>ConflictError\<close>, \<open>DatabaseError\<close>, \<open>json.JSONDecodeError\<close>, and \<open>Exception\<close>
  for everything else.
\<close>

definition create_or_get_except :: "exn \<Rightarrow> response" where
  "create_or_get_except e =
     (if class_of e = CValidationError \<or> class_of e = CConflictError
      then create_error_response (case status_code e of Some c \<Rightarrow> c | None \<Rightarrow> 0) (message e)
      else if class_of e = CDatabaseError
      then create_error_response (case status_code e of Some c \<Rightarrow> c | None \<Rightarrow> 0)
             ''Database operation failed''
      else if class_of e = CJSONDecodeError
      then create_error_response HTTP_STATUS_BAD_REQUEST ''Invalid JSON format''
      else create_error_response HTTP_STATUS_INTERNAL_ERROR ''Internal server error'')"

definition create_or_get_handler :: "pylib \<Rightarrow> event \<Rightarrow> world \<Rightarrow> response \<times> world" where
  "create_or_get_handler lib ev w =
     (case create_or_get_try lib ev w of
        (Inr r, w') \<Rightarrow> (r, w')
      | (Inl e, w') \<Rightarrow> (create_or_get_except e, w'))"

section \<open>The resolve handler (\<open>url_shortener_handlers/redirectURL.py\<close>)\<close>

definition redirect_try :: "event \<Rightarrow> world \<Rightarrow> (exn + response) \<times> world" where
  "redirect_try ev w =
     (case extract_path_parameters ev of
        (sid, stg, tenant) \<Rightarrow>
          if \<not> truthy sid then (Inl (ValidationError ''Missing short URL identifier''), w)
          else (let short_id = the sid in
                case get_url_by_short_id short_id w of
                  (Inl e, w1) \<Rightarrow> (Inl e, w1)
                | (Inr None, w1) \<Rightarrow>
                    (Inr (create_json_response HTTP_STATUS_NOT_FOUND
                            [(''error'', JStr ''URL not found''),
                             (''message'',
                              JStr ''The short URL you're looking for doesn't exist.''),
                             (''shortId'', JStr short_id)]), w1)
                | (Inr (Some item), w1) \<Rightarrow>
                    (let long_url = longUrl item; expiry_date = expiryDate item;
                         (expired, w2) = is_expired_at expiry_date w1
                     in if expired
                        then (Inr (create_json_response HTTP_STATUS_GONE
                                     [(''error'', JStr ''URL expired''),
                                      (''message'',
                                       JStr ''This short URL has expired and is no longer valid.''),
                                      (''shortId'', JStr short_id),
                                      (''expiredAt'',
                                       (case expiry_date of None \<Rightarrow> JNull
                                        | Some x \<Rightarrow> JStr x))]), w2)
                        else (let (click_updated, w3) = update_click_count short_id w2
                              in case long_url of
                                   None \<Rightarrow>
                                     (Inl (TypeError ''NoneType object is not subscriptable''),
                                      w3)
                                 | Some l \<Rightarrow> (Inr (create_redirect_response l), w3)))))"

definition redirect_except :: "exn \<Rightarrow> response" where
  "redirect_except e =
     (if class_of e = CValidationError
      then create_error_response (case status_code e of Some c \<Rightarrow> c | None \<Rightarrow> 0) (message e)
      else if class_of e = CDatabaseError
      then create_json_response HTTP_STATUS_INTERNAL_ERROR
             [(''error'', JStr ''Service temporarily unavailable''),
              (''message'', JStr ''Please try again later.'')]
      else create_json_response HTTP_STATUS_INTERNAL_ERROR
             [(''error'', JStr ''Internal server error''),
              (''message'', JStr ''An unexpected error occurred.'')])"

definition redirect_handler :: "event \<Rightarrow> world \<Rightarrow> response \<times> world" where
  "redirect_handler ev w =
     (case redirect_try ev w of
        (Inr r, w') \<Rightarrow> (r, w')
      | (Inl e, w') \<Rightarrow> (redirect_except e, w'))"

section \<open>Concrete inputs\<close>

text \<open>
  Inputs on which the statements below are evaluated: a request for a short id, a stored
  mapping, and a state with a given clock and table, no injected store failure and an
  empty call log.
\<close>

definition demo_event :: "string \<Rightarrow> event" where
  "demo_event k =
     \<lparr>pathParameters = [''shortId'' \<mapsto> k], body = BodyAbsent, host = None, stage = None\<rparr>"

definition demo_item :: "string \<Rightarrow> string \<Rightarrow> string \<Rightarrow> int \<Rightarrow> url_item" where
  "demo_item k u x ttl =
     \<lparr>shortId = k, longUrl = Some u, createdAt = Some ''1970-01-01T00:00:00+00:00'',
      expiryDate = Some x, ttlTimestamp = Some ttl, clickCount = Some 0,
      lastAccessedAt = None\<rparr>"

definition demo_world :: "(nat \<Rightarrow> int) \<Rightarrow> url_item list \<Rightarrow> world" where
  "demo_world clk rows =
     \<lparr>clock = clk, reads = 0, BASE_URL = None, table = Some rows,
      faults = (\<lambda>n. None), calls = []\<rparr>"

text \<open>
  Stand-ins for the library: a digest that is all zero for a text ending in \<open>7\<close> and all
  one otherwise, the seconds of an instant with six decimals, no JSON parser, and regular
  expressions that accept every URL as public and well-formed.
\<close>

definition demo_lib :: pylib where
  "demo_lib =
     \<lparr>sha256 = (\<lambda>text. if text \<noteq> [] \<and> last text = CHR ''7'' then 0 else - 1),
      timestamp_str = (\<lambda>t. str_int (t div 1000000) @ ''.'' @ zpad6 (nat (t mod 1000000))),
      json_loads = (\<lambda>s. None),
      private_ip_pattern_match = (\<lambda>url. False),
      url_pattern_match = (\<lambda>url. True)\<rparr>"

section \<open>Properties of the expiry evaluator\<close>

lemmas iso_eval = parse_digits_def is_digit_def digit_val_def parse_isoformat_date_def
  parse_hh_mm_ss_ff_def parse_isoformat_time_def is_sign_def valid_fields_def
  fromisoformat_def days_in_month_def is_leap_def Let_def

lemmas expiry_eval = is_expired_def normalize_expiry_def endswith_def now_gt_def
  utc_micros_def ymd2ord_def days_before_year_def days_before_month_def

lemma utc_micros_assume_utc:
  "tzinfo d = None \<Longrightarrow> utc_micros (d\<lparr>tzinfo := Some 0\<rparr>) = utc_micros d"
  by (simp add: utc_micros_def)

text \<open>
  C1. An expiry text with an explicit negative offset is not accepted: the text
  \<open>2099-01-01T00:00:00-05:00\<close> is a well-formed instant
  (2099-01-01T05:00:00 UTC, 4070926800000000 microseconds after the epoch), yet
  \<open>is_expired\<close> appends \<open>+00:00\<close> to it because it contains no \<open>+\<close>, the result does
  not parse, and the mapping is reported expired at every reading of the clock. The same
  instant written with a positive offset is alive at the epoch.
\<close>

theorem is_expired_negative_offset:
  "fromisoformat ''2099-01-01T00:00:00-05:00''
     = Inr \<lparr>year = 2099, month = 1, day = 1, hour = 0, minute = 0, second = 0,
            microsecond = 0, tzinfo = Some (- 18000000000)\<rparr>
   \<and> utc_micros \<lparr>year = 2099, month = 1, day = 1, hour = 0, minute = 0, second = 0,
            microsecond = 0, tzinfo = Some (- 18000000000)\<rparr> = 4070926800000000
   \<and> normalize_expiry ''2099-01-01T00:00:00-05:00'' = ''2099-01-01T00:00:00-05:00+00:00''
   \<and> is_expired current_time (Some ''2099-01-01T00:00:00-05:00'') = True
   \<and> is_expired 0 (Some ''2099-01-01T10:00:00+05:00'') = False"
proof -
  have parse: "fromisoformat ''2099-01-01T00:00:00-05:00''
     = Inr \<lparr>year = 2099, month = 1, day = 1, hour = 0, minute = 0, second = 0,
            microsecond = 0, tzinfo = Some (- 18000000000)\<rparr>"
    by (simp add: iso_eval)
  have inst: "utc_micros \<lparr>year = 2099, month = 1, day = 1, hour = 0, minute = 0, second = 0,
            microsecond = 0, tzinfo = Some (- 18000000000)\<rparr> = 4070926800000000"
    by (simp add: expiry_eval is_leap_def)
  have norm: "normalize_expiry ''2099-01-01T00:00:00-05:00''
                = ''2099-01-01T00:00:00-05:00+00:00''"
    by (simp add: normalize_expiry_def endswith_def)
  have bad: "fromisoformat ''2099-01-01T00:00:00-05:00+00:00''
                = Inl (ValueError ''Invalid isoformat string'')"
    by (simp add: iso_eval)
  have dead: "is_expired current_time (Some ''2099-01-01T00:00:00-05:00'') = True"
    by (simp add: is_expired_def norm bad)
  have alive: "is_expired 0 (Some ''2099-01-01T10:00:00+05:00'') = False"
    by (simp add: expiry_eval iso_eval)
  from parse inst norm dead alive show ?thesis by blast
qed

text \<open>
  C8. \<open>is_expired\<close> is true for an absent and for an empty expiry text and for every
  text whose normalized form \<open>fromisoformat\<close> rejects; for every text it parses, it is
  true exactly when the current instant is strictly greater than the parsed instant (a
  naive value read as UTC), so an expiry equal to the current instant is not expired.
\<close>

theorem is_expired_fail_safe_and_strict:
  "is_expired current_time None
   \<and> is_expired current_time (Some [])
   \<and> (s \<noteq> [] \<longrightarrow>
        is_expired current_time (Some s)
          = (case fromisoformat (normalize_expiry s) of
               Inl e \<Rightarrow> True
             | Inr expiry \<Rightarrow> current_time > utc_micros expiry))"
proof -
  have "is_expired current_time (Some s)
          = (case fromisoformat (normalize_expiry s) of
               Inl e \<Rightarrow> True
             | Inr expiry \<Rightarrow> current_time > utc_micros expiry)" if "s \<noteq> []"
  proof (cases "fromisoformat (normalize_expiry s)")
    case (Inl e)
    with that show ?thesis by (simp add: is_expired_def)
  next
    case (Inr expiry)
    show ?thesis
    proof (cases "tzinfo expiry")
      case None
      with Inr that show ?thesis
        by (simp add: is_expired_def now_gt_def utc_micros_assume_utc)
    next
      case (Some off)
      with Inr that show ?thesis
        by (simp add: is_expired_def now_gt_def)
    qed
  qed
  then show ?thesis by (simp add: is_expired_def)
qed

theorem is_expired_fail_safe_and_strict_witness:
  "''2099-01-01T00:00:00'' \<noteq> []
   \<and> fromisoformat (normalize_expiry ''2099-01-01T00:00:00'')
       = Inr \<lparr>year = 2099, month = 1, day = 1, hour = 0, minute = 0, second = 0,
              microsecond = 0, tzinfo = Some 0\<rparr>
   \<and> is_expired 4070908800000000 (Some ''2099-01-01T00:00:00'') = False
   \<and> is_expired 4070908800000001 (Some ''2099-01-01T00:00:00'') = True
   \<and> fromisoformat (normalize_expiry ''not-a-date'') = Inl (ValueError ''Invalid isoformat string'')
   \<and> is_expired 0 (Some ''not-a-date'') = True"
proof -
  have p: "fromisoformat (normalize_expiry ''2099-01-01T00:00:00'')
       = Inr \<lparr>year = 2099, month = 1, day = 1, hour = 0, minute = 0, second = 0,
              microsecond = 0, tzinfo = Some 0\<rparr>"
    by (simp add: normalize_expiry_def endswith_def iso_eval)
  have q: "fromisoformat (normalize_expiry ''not-a-date'')
             = Inl (ValueError ''Invalid isoformat string'')"
    by (simp add: normalize_expiry_def endswith_def iso_eval)
  show ?thesis
    using is_expired_fail_safe_and_strict [of 4070908800000000 "''2099-01-01T00:00:00''"]
          is_expired_fail_safe_and_strict [of 4070908800000001 "''2099-01-01T00:00:00''"]
          is_expired_fail_safe_and_strict [of 0 "''not-a-date''"]
    by (simp add: p q utc_micros_def ymd2ord_def days_before_year_def
          days_before_month_def is_leap_def)
qed

section \<open>Properties of the short code generator\<close>

lemma unat_byte_lt: "unat (b :: 8 word) < 256"
  using unsigned_less [of b, where ?'a = nat] by simp

lemma hex_val_table:
  "map hex_val hexchars = map Some [0..<16]"
  by (simp add: hexchars_def hex_val_def upt_rec)

lemma hex_val_hexchars: "n < 16 \<Longrightarrow> hex_val (hexchars ! n) = Some n"
proof -
  assume n: "n < 16"
  have len: "length hexchars = 16" by (simp add: hexchars_def)
  have "hex_val (hexchars ! n) = map hex_val hexchars ! n"
    using n len by simp
  also have "\<dots> = map Some [0..<16] ! n"
    by (simp only: hex_val_table)
  also have "\<dots> = Some n"
    using n by simp
  finally show ?thesis .
qed

lemma fromhex_hex_of_byte:
  "fromhex (hex_of_byte b @ rest) =
     (case fromhex rest of Some bs \<Rightarrow> Some (b # bs) | None \<Rightarrow> None)"
proof -
  have h: "unat b div 16 < 16" and l: "unat b mod 16 < 16"
    using unat_byte_lt [of b] by simp_all
  have "(of_nat (unat b div 16 * 16 + unat b mod 16) :: 8 word) = b"
    by simp
  then show ?thesis
    by (simp add: hex_of_byte_def hex_val_hexchars [OF h] hex_val_hexchars [OF l]
             split: option.splits)
qed

lemma fromhex_concat: "fromhex (concat (map hex_of_byte bs)) = Some bs"
  by (induction bs) (simp_all add: fromhex_hex_of_byte)

lemma take_concat_hex:
  "take (2 * k) (concat (map hex_of_byte bs)) = concat (map hex_of_byte (take k bs))"
proof (induction bs arbitrary: k)
  case Nil
  then show ?case by simp
next
  case (Cons b bs)
  show ?case
  proof (cases k)
    case 0
    then show ?thesis by simp
  next
    case (Suc j)
    have "length (hex_of_byte b) = 2" by (simp add: hex_of_byte_def)
    with Suc Cons.IH [of j] show ?thesis by simp
  qed
qed

lemma length_digest_bytes: "length (digest_bytes w) = 32"
  by (simp add: digest_bytes_def)

lemma fromhex_prefix:
  "fromhex (take (2 * k) (hexdigest w)) = Some (take k (digest_bytes w))"
  by (simp add: hexdigest_def take_concat_hex fromhex_concat)

lemma b64_alphabet_ok: "list_all is_suffix_char b64_alphabet"
  by (simp add: b64_alphabet_def is_suffix_char_def)

lemma b64char_ok: "n < 64 \<Longrightarrow> is_suffix_char (b64char n)"
  using b64_alphabet_ok by (simp add: list_all_length b64char_def b64_alphabet_def)

lemma suffix_char_not_pad: "is_suffix_char c \<Longrightarrow> c \<noteq> CHR ''=''"
  by (auto simp: is_suffix_char_def)

lemma b64_idx:
  "unat (a :: 8 word) div 4 < 64"
  "unat (a :: 8 word) mod 4 * 16 + unat (b :: 8 word) div 16 < 64"
  "unat (b :: 8 word) mod 16 * 4 + unat (c :: 8 word) div 64 < 64"
  "unat (c :: 8 word) mod 64 < 64"
  "unat (a :: 8 word) mod 4 * 16 < 64"
  "unat (b :: 8 word) mod 16 * 4 < 64"
  using unat_byte_lt [of a] unat_byte_lt [of b] unat_byte_lt [of c] by simp_all

lemma clean_b64_chars:
  "list_all is_suffix_char (filter (\<lambda>c. c \<noteq> CHR ''='') (urlsafe_b64encode bs))"
  by (induction bs rule: urlsafe_b64encode.induct)
     (simp_all add: b64char_ok b64_idx suffix_char_not_pad)

lemma clean_b64_length:
  "length (filter (\<lambda>c. c \<noteq> CHR ''='') (urlsafe_b64encode bs)) = (4 * length bs + 2) div 3"
  by (induction bs rule: urlsafe_b64encode.induct)
     (simp_all add: b64char_ok b64_idx suffix_char_not_pad)

text \<open>
  The hashing path of \<open>generate_short_url\<close>: eight digest bytes encode to eleven
  characters besides the padding, so the first six are returned.
\<close>

lemma generate_hashed:
  assumes "custom_suffix = None \<or> custom_suffix = Some []"
  shows "generate_short_url lib long_url custom_suffix w =
           (Inr (take 6 (filter (\<lambda>c. c \<noteq> CHR ''='')
                   (urlsafe_b64encode (take 8 (digest_bytes
                      (sha256 lib (long_url @ timestamp_str lib (clock w (reads w))))))))),
            w\<lparr>reads := Suc (reads w)\<rparr>)"
proof -
  have p8: "fromhex (take 16 (hexdigest d)) = Some (take 8 (digest_bytes d))" for d
    using fromhex_prefix [of 8 d] by simp
  have len: "length (filter (\<lambda>c. c \<noteq> CHR ''='')
               (urlsafe_b64encode (take 8 (digest_bytes d)))) = 11" for d
    by (simp add: clean_b64_length length_digest_bytes)
  from assms show ?thesis
    by (auto simp: generate_short_url_def now_def Let_def HASH_TRUNCATE_LENGTH_def
          SHORT_URL_LENGTH_def p8 len)
qed

lemma hashed_code_ok:
  "length (take 6 (filter (\<lambda>c. c \<noteq> CHR ''='')
             (urlsafe_b64encode (take 8 (digest_bytes d))))) = 6
   \<and> list_all is_suffix_char (take 6 (filter (\<lambda>c. c \<noteq> CHR ''='')
             (urlsafe_b64encode (take 8 (digest_bytes d)))))"
proof -
  have "list_all is_suffix_char (filter (\<lambda>c. c \<noteq> CHR ''='')
             (urlsafe_b64encode (take 8 (digest_bytes d))))"
    by (rule clean_b64_chars)
  then have "list_all is_suffix_char (take 6 (filter (\<lambda>c. c \<noteq> CHR ''='')
             (urlsafe_b64encode (take 8 (digest_bytes d)))))"
    by (auto simp: list_all_iff dest: in_set_takeD)
  then show ?thesis
    by (simp add: clean_b64_length length_digest_bytes)
qed

text \<open>
  C7. For every long URL, every digest function and every reading of the clock, the
  generated code is returned (no error), has exactly 6 characters, all of them in
  \<open>[a-zA-Z0-9_-]\<close>. It is the first six characters of the unpadded URL-safe base64
  text of the first 8 digest bytes, which always has 11 characters; the longer prefix the
  code falls back to (24 hexadecimal digits, 12 bytes) has 16, so it too yields six.
\<close>

theorem generated_code_six_url_safe_chars:
  "\<exists>code. fst (generate_short_url lib long_url None w) = Inr code
      \<and> length code = 6 \<and> list_all is_suffix_char code
      \<and> code = take 6 (filter (\<lambda>c. c \<noteq> CHR ''='')
                 (urlsafe_b64encode (take 8 (digest_bytes
                    (sha256 lib (long_url @ timestamp_str lib (clock w (reads w))))))))
      \<and> length (filter (\<lambda>c. c \<noteq> CHR ''='')
                 (urlsafe_b64encode (take 8 (digest_bytes
                    (sha256 lib (long_url @ timestamp_str lib (clock w (reads w)))))))) = 11
      \<and> fromhex (take EXTENDED_HASH_LENGTH (hexdigest
                    (sha256 lib (long_url @ timestamp_str lib (clock w (reads w))))))
          = Some (take 12 (digest_bytes
                    (sha256 lib (long_url @ timestamp_str lib (clock w (reads w))))))
      \<and> length (filter (\<lambda>c. c \<noteq> CHR ''='')
                 (urlsafe_b64encode (take 12 (digest_bytes
                    (sha256 lib (long_url @ timestamp_str lib (clock w (reads w)))))))) = 16"
proof -
  let ?d = "sha256 lib (long_url @ timestamp_str lib (clock w (reads w)))"
  have ext: "fromhex (take EXTENDED_HASH_LENGTH (hexdigest ?d)) = Some (take 12 (digest_bytes ?d))"
    using fromhex_prefix [of 12 ?d] by (simp add: EXTENDED_HASH_LENGTH_def)
  show ?thesis
    using hashed_code_ok [of ?d] ext
    by (simp add: generate_hashed clean_b64_length length_digest_bytes)
qed

text \<open>
  C10. An empty custom suffix is treated exactly like an absent one. Although the empty
  text is not a valid suffix (and a non-empty invalid one such as \<open>ab\<close> is refused with
  \<open>ValueError\<close>, the clock unread), \<open>generate_short_url\<close> does not validate it: it
  reads the clock once and returns the freshly generated code, the first six characters
  of the unpadded URL-safe base64 text of the first 8 bytes of the digest of the long URL
  followed by the timestamp; that code has 6 characters of \<open>[a-zA-Z0-9_-]\<close>.
\<close>

theorem empty_suffix_as_absent:
  "generate_short_url lib long_url (Some []) w = generate_short_url lib long_url None w
   \<and> \<not> is_valid_custom_suffix []
   \<and> (\<exists>code. fst (generate_short_url lib long_url (Some []) w) = Inr code
         \<and> length code = 6 \<and> list_all is_suffix_char code)
   \<and> generate_short_url lib long_url (Some []) w
       = (Inr (take 6 (filter (\<lambda>c. c \<noteq> CHR ''='')
                 (urlsafe_b64encode (take 8 (digest_bytes
                    (sha256 lib (long_url @ timestamp_str lib (clock w (reads w))))))))),
          w\<lparr>reads := Suc (reads w)\<rparr>)
   \<and> length (take 6 (filter (\<lambda>c. c \<noteq> CHR ''='')
                 (urlsafe_b64encode (take 8 (digest_bytes
                    (sha256 lib (long_url @ timestamp_str lib (clock w (reads w))))))))) = 6
   \<and> list_all is_suffix_char
         (take 6 (filter (\<lambda>c. c \<noteq> CHR ''='')
                 (urlsafe_b64encode (take 8 (digest_bytes
                    (sha256 lib (long_url @ timestamp_str lib (clock w (reads w)))))))))
   \<and> \<not> is_valid_custom_suffix ''ab''
   \<and> generate_short_url lib long_url (Some ''ab'') w
       = (Inl (ValueError (''Custom suffix must be 3-20 alphanumeric characters, got: ''
                           @ [CHR 0x27] @ ''ab'' @ [CHR 0x27])),
          w)"
proof -
  let ?d = "sha256 lib (long_url @ timestamp_str lib (clock w (reads w)))"
  have ab: "\<not> is_valid_custom_suffix ''ab''"
    by (simp add: is_valid_custom_suffix_def CUSTOM_SUFFIX_MIN_LENGTH_def)
  have bad: "generate_short_url lib long_url (Some ''ab'') w
       = (Inl (ValueError (''Custom suffix must be 3-20 alphanumeric characters, got: ''
                           @ [CHR 0x27] @ ''ab'' @ [CHR 0x27])),
          w)"
    by (simp add: generate_short_url_def ab)
  show ?thesis
    using hashed_code_ok [of ?d] ab bad
    by (simp add: generate_hashed is_valid_custom_suffix_def)
qed

section \<open>Properties of the resolve handler\<close>

lemma truthy_Some: "truthy (Some s) = (s \<noteq> [])"
  by (cases s) (simp_all add: truthy_def)

text \<open>
  C9. A resolve of a code whose mapping is in the store and whose expiry text
  \<open>is_expired\<close> reports expired answers 410 Gone, not 404 Not Found; the only store
  call is the \<open>get_item\<close>, so no counter update is attempted and the table, with the
  mapping's \<open>clickCount\<close> and \<open>lastAccessedAt\<close>, is unchanged.
\<close>

theorem resolve_expired_is_gone:
  assumes "extract_path_parameters ev = (Some short_id, stg, tenant)"
    and "short_id \<noteq> []"
    and "table w = Some rows"
    and "fault_now w = None"
    and "find (\<lambda>r. shortId r = short_id) rows = Some item"
    and "is_expired (clock w (reads w)) (expiryDate item)"
  shows "statusCode (fst (redirect_handler ev w)) = HTTP_STATUS_GONE
       \<and> statusCode (fst (redirect_handler ev w)) \<noteq> HTTP_STATUS_NOT_FOUND
       \<and> table (snd (redirect_handler ev w)) = Some rows
       \<and> calls (snd (redirect_handler ev w)) = calls w @ [GetItem short_id]"
proof -
  have g: "get_url_by_short_id short_id w = (Inr (Some item), log_call (GetItem short_id) w)"
    using assms(3,4,5) by (simp add: get_url_by_short_id_def get_item_def)
  define w2 where "w2 = snd (is_expired_at (expiryDate item) (log_call (GetItem short_id) w))"
  have e: "is_expired_at (expiryDate item) (log_call (GetItem short_id) w) = (True, w2)"
    using assms(6) by (simp add: is_expired_at_def log_call_def w2_def)
  have s: "table w2 = Some rows" "calls w2 = calls w @ [GetItem short_id]"
    using assms(3) by (simp_all add: w2_def is_expired_at_def log_call_def now_def)
  have "redirect_try ev w =
          (Inr (create_json_response HTTP_STATUS_GONE
                  [(''error'', JStr ''URL expired''),
                   (''message'', JStr ''This short URL has expired and is no longer valid.''),
                   (''shortId'', JStr short_id),
                   (''expiredAt'', (case expiryDate item of None \<Rightarrow> JNull
                                    | Some x \<Rightarrow> JStr x))]), w2)"
    using assms(1,2) by (simp add: redirect_try_def truthy_Some g e)
  then show ?thesis
    using s
    by (simp add: redirect_handler_def create_json_response_def HTTP_STATUS_GONE_def
          HTTP_STATUS_NOT_FOUND_def)
qed

theorem resolve_expired_is_gone_witness:
  "statusCode (fst (redirect_handler (demo_event ''abc123'')
       (demo_world (\<lambda>n. 2000000000)
          [demo_item ''abc123'' ''https://a.com'' ''1970-01-01T00:16:40+00:00'' 1000])))
     = 410
   \<and> table (snd (redirect_handler (demo_event ''abc123'')
       (demo_world (\<lambda>n. 2000000000)
          [demo_item ''abc123'' ''https://a.com'' ''1970-01-01T00:16:40+00:00'' 1000])))
     = Some [demo_item ''abc123'' ''https://a.com'' ''1970-01-01T00:16:40+00:00'' 1000]
   \<and> calls (snd (redirect_handler (demo_event ''abc123'')
       (demo_world (\<lambda>n. 2000000000)
          [demo_item ''abc123'' ''https://a.com'' ''1970-01-01T00:16:40+00:00'' 1000])))
     = [GetItem ''abc123'']"
proof -
  let ?item = "demo_item ''abc123'' ''https://a.com'' ''1970-01-01T00:16:40+00:00'' 1000"
  let ?w = "demo_world (\<lambda>n. 2000000000) [?item]"
  have h1: "extract_path_parameters (demo_event ''abc123'') = (Some ''abc123'', None, None)"
    by (simp add: extract_path_parameters_def demo_event_def)
  have h2: "''abc123'' \<noteq> []" by simp
  have h3: "table ?w = Some [?item]" by (simp add: demo_world_def)
  have h4: "fault_now ?w = None" by (simp add: fault_now_def demo_world_def)
  have h5: "find (\<lambda>r. shortId r = ''abc123'') [?item] = Some ?item"
    by (simp add: demo_item_def)
  have h6: "is_expired (clock ?w (reads ?w)) (expiryDate ?item)"
    by (simp add: demo_world_def demo_item_def expiry_eval iso_eval)
  show ?thesis
    using resolve_expired_is_gone [OF h1 h2 h3 h4 h5 h6]
    by (simp add: HTTP_STATUS_GONE_def demo_world_def)
qed

section \<open>Properties of the creation orchestrator\<close>

lemma now_frame:
  "now w = (t, w') \<Longrightarrow> calls w' = calls w \<and> table w' = table w \<and> faults w' = faults w"
  by (auto simp: now_def)

lemma get_current_timestamp_frame:
  "get_current_timestamp w = (ts, w')
     \<Longrightarrow> calls w' = calls w \<and> table w' = table w \<and> faults w' = faults w"
  by (auto simp: get_current_timestamp_def now_def Let_def)

lemma generate_short_url_frame:
  "generate_short_url lib u cs w = (r, w')
     \<Longrightarrow> calls w' = calls w \<and> table w' = table w \<and> faults w' = faults w"
  by (auto simp: generate_short_url_def now_def Let_def
           split: option.splits list.splits if_splits)

lemma attempt_short_id_frame:
  "attempt_short_id lib u cs a w = (r, w')
     \<Longrightarrow> calls w' = calls w \<and> table w' = table w \<and> faults w' = faults w"
  by (auto simp: attempt_short_id_def Let_def get_current_timestamp_def now_def
           split: if_splits prod.splits dest!: generate_short_url_frame)

lemma expiry_and_ttl_frame:
  "expiry_and_ttl w = (r, w')
     \<Longrightarrow> calls w' = calls w \<and> table w' = table w \<and> faults w' = faults w"
  by (auto simp: expiry_and_ttl_def calculate_expiry_date_def now_def Let_def
           split: if_splits prod.splits sum.splits)

lemma create_url_mapping_put:
  assumes "create_url_mapping sid u ed ttl w = (r, w')" and "table w = Some rows"
  shows "\<exists>item. shortId item = sid \<and> longUrl item = Some u \<and> expiryDate item = Some ed
            \<and> ttlTimestamp item = Some ttl
            \<and> calls w' = calls w @ [PutItem item]
            \<and> (case r of Inr i \<Rightarrow> i = item \<and> table w' = Some (rows @ [item])
                | Inl e \<Rightarrow> table w' = Some rows)"
  using assms
  by (auto simp: create_url_mapping_def get_current_timestamp_def now_def Let_def
        put_item_def log_call_def fault_now_def
        split: option.splits if_splits)

lemma create_url_mapping_unconfigured:
  "table w = None \<Longrightarrow> create_url_mapping sid u ed ttl w
       = (Inl (DatabaseError ''DynamoDB table not configured'' None), w)"
  by (simp add: create_url_mapping_def)

lemma create_url_mapping_configured:
  assumes "create_url_mapping sid u ed ttl w = (r, w')"
    and "(\<exists>i. r = Inr i) \<or> (\<exists>e. r = Inl e \<and> class_of e = CConflictError)"
  shows "\<exists>rows. table w = Some rows"
proof (cases "table w")
  case None
  with assms show ?thesis by (auto simp: create_url_mapping_unconfigured)
next
  case (Some rows)
  then show ?thesis by blast
qed

lemma retry_loop_success:
  assumes "attempt < MAX_COLLISION_RETRIES"
    and "attempt_short_id lib u cs attempt w = (Inr sid, w1)"
    and "create_url_mapping sid u ed ttl w1 = (Inr item, w2)"
  shows "retry_loop lib u cs ed ttl attempt w = (Inr (sid, item), w2)"
  using assms by (subst retry_loop.simps) simp

lemma retry_loop_conflict_retry:
  assumes "Suc attempt < MAX_COLLISION_RETRIES"
    and "\<not> truthy cs"
    and "attempt_short_id lib u cs attempt w = (Inr sid, w1)"
    and "create_url_mapping sid u ed ttl w1 = (Inl e, w2)"
    and "class_of e = CConflictError"
  shows "retry_loop lib u cs ed ttl attempt w = retry_loop lib u cs ed ttl (Suc attempt) w2"
  using assms by (subst retry_loop.simps) (simp add: MAX_COLLISION_RETRIES_def)


lemma retry_loop_conflict_custom:
  assumes "attempt < MAX_COLLISION_RETRIES"
    and "truthy cs"
    and "attempt_short_id lib u cs attempt w = (Inr sid, w1)"
    and "create_url_mapping sid u ed ttl w1 = (Inl e, w2)"
    and "class_of e = CConflictError"
  shows "retry_loop lib u cs ed ttl attempt w = (Inl e, w2)"
  using assms by (subst retry_loop.simps) simp

text \<open>
  C5. A request with a valid custom suffix whose conditional insert reports
  \<open>already exists\<close> (a \<open>ConflictError\<close> from \<open>create_url_mapping\<close>) ends with that
  \<open>ConflictError\<close>; exactly one store call was made, the \<open>put_item\<close> keyed by the
  suffix itself, the table is unchanged, and no other code is tried.
\<close>

theorem custom_suffix_conflict_not_retried:
  assumes "is_valid_custom_suffix s"
    and "expiry_and_ttl w = (Inr (ed, ttl), w0)"
    and "create_url_mapping s u ed ttl w0 = (Inl e, w1)"
    and "class_of e = CConflictError"
  shows "create_short_url_with_retry lib u (Some s) w = (Inl e, w1)
       \<and> (\<exists>item. shortId item = s \<and> calls w1 = calls w @ [PutItem item])
       \<and> table w1 = table w"
proof -
  from assms(1) have ne: "s \<noteq> []" by (auto simp: is_valid_custom_suffix_def)
  then have tr: "truthy (Some s)" by (cases s) (simp_all add: truthy_def)
  from ne assms(1) have gen: "attempt_short_id lib u (Some s) 0 w0 = (Inr s, w0)"
    by (cases s) (simp_all add: attempt_short_id_def truthy_def generate_short_url_def)
  have run: "retry_loop lib u (Some s) ed ttl 0 w0 = (Inl e, w1)"
    by (rule retry_loop_conflict_custom [OF _ tr gen assms(3,4)])
       (simp add: MAX_COLLISION_RETRIES_def)
  obtain rows where rows: "table w0 = Some rows"
    using create_url_mapping_configured [OF assms(3)] assms(4) by blast
  from create_url_mapping_put [OF assms(3) rows] expiry_and_ttl_frame [OF assms(2)] rows
  have "(\<exists>item. shortId item = s \<and> calls w1 = calls w @ [PutItem item]) \<and> table w1 = table w"
    by auto
  with run assms(2) show ?thesis
    by (simp add: create_short_url_with_retry_def)
qed

text \<open>
  C6. Without a custom suffix, when the inserts of attempts 0 and 1 are rejected with
  \<open>already exists\<close> and the insert of attempt 2 is accepted, the orchestrator returns
  the third code and the item written with it, whose \<open>shortId\<close> is that code, after
  exactly three store calls, all of them \<open>put_item\<close>. And whatever the attempt, an
  accepted insert ends the loop at once with that attempt's code and item.
\<close>

theorem third_attempt_accepted:
  assumes "\<not> truthy cs"
    and "expiry_and_ttl w = (Inr (ed, ttl), w0)"
    and "attempt_short_id lib u cs 0 w0 = (Inr c0, wa)"
    and "create_url_mapping c0 u ed ttl wa = (Inl e0, w1)"
    and "class_of e0 = CConflictError"
    and "attempt_short_id lib u cs 1 w1 = (Inr c1, wb)"
    and "create_url_mapping c1 u ed ttl wb = (Inl e1, w2)"
    and "class_of e1 = CConflictError"
    and "attempt_short_id lib u cs 2 w2 = (Inr c2, wc)"
    and "create_url_mapping c2 u ed ttl wc = (Inr i2, w3)"
  shows "create_short_url_with_retry lib u cs w = (Inr (c2, i2), w3)
       \<and> shortId i2 = c2
       \<and> (\<exists>i0 i1. shortId i0 = c0 \<and> shortId i1 = c1
              \<and> calls w3 = calls w @ [PutItem i0, PutItem i1, PutItem i2])
       \<and> (\<forall>attempt v va sid item v'.
              attempt < MAX_COLLISION_RETRIES
              \<and> attempt_short_id lib u cs attempt v = (Inr sid, va)
              \<and> create_url_mapping sid u ed ttl va = (Inr item, v')
              \<longrightarrow> retry_loop lib u cs ed ttl attempt v = (Inr (sid, item), v'))"
proof -
  have r2: "retry_loop lib u cs ed ttl 2 w2 = (Inr (c2, i2), w3)"
    by (rule retry_loop_success [OF _ assms(9,10)]) (simp add: MAX_COLLISION_RETRIES_def)
  have r1: "retry_loop lib u cs ed ttl 1 w1 = retry_loop lib u cs ed ttl 2 w2"
    using retry_loop_conflict_retry [OF _ assms(1) assms(6,7,8)]
    by (simp add: MAX_COLLISION_RETRIES_def numeral_2_eq_2)
  have r0: "retry_loop lib u cs ed ttl 0 w0 = retry_loop lib u cs ed ttl 1 w1"
    using retry_loop_conflict_retry [OF _ assms(1) assms(3,4,5)]
    by (simp add: MAX_COLLISION_RETRIES_def)
  have run: "create_short_url_with_retry lib u cs w = (Inr (c2, i2), w3)"
    using assms(2) r0 r1 r2 by (simp add: create_short_url_with_retry_def)
  obtain rows0 where t0: "table wa = Some rows0"
    using create_url_mapping_configured [OF assms(4)] assms(5) by blast
  obtain rows1 where t1: "table wb = Some rows1"
    using create_url_mapping_configured [OF assms(7)] assms(8) by blast
  obtain rows2 where t2: "table wc = Some rows2"
    using create_url_mapping_configured [OF assms(10)] by blast
  from create_url_mapping_put [OF assms(4) t0]
  obtain i0 where i0: "shortId i0 = c0" "calls w1 = calls wa @ [PutItem i0]" by auto
  from create_url_mapping_put [OF assms(7) t1]
  obtain i1 where i1: "shortId i1 = c1" "calls w2 = calls wb @ [PutItem i1]" by auto
  from create_url_mapping_put [OF assms(10) t2]
  have i2: "shortId i2 = c2" "calls w3 = calls wc @ [PutItem i2]" by auto
  have "calls w3 = calls w @ [PutItem i0, PutItem i1, PutItem i2]"
    using i0(2) i1(2) i2(2) expiry_and_ttl_frame [OF assms(2)]
      attempt_short_id_frame [OF assms(3)] attempt_short_id_frame [OF assms(6)]
      attempt_short_id_frame [OF assms(9)]
    by simp
  with i0(1) i1(1) have "\<exists>i0 i1. shortId i0 = c0 \<and> shortId i1 = c1
              \<and> calls w3 = calls w @ [PutItem i0, PutItem i1, PutItem i2]"
    by blast
  moreover have "\<forall>attempt v va sid item v'.
              attempt < MAX_COLLISION_RETRIES
              \<and> attempt_short_id lib u cs attempt v = (Inr sid, va)
              \<and> create_url_mapping sid u ed ttl va = (Inr item, v')
              \<longrightarrow> retry_loop lib u cs ed ttl attempt v = (Inr (sid, item), v')"
    by (auto intro: retry_loop_success)
  ultimately show ?thesis using run i2(1) by blast
qed


lemmas fmt_eval = isoformat_def utc_datetime_def ord2ymd_def Let_def zpad2_def zpad4_def
  zpad6_def digit_char_def format_offset_def

lemma upt8: "[0..<8] = [0, 1, 2, 3, 4, 5, 6, 7]"
  by (simp add: upt_rec)

lemma take8_digest:
  "take 8 (digest_bytes d) = map (\<lambda>i. ucast (drop_bit (8 * (31 - i)) d)) [0, 1, 2, 3, 4, 5, 6, 7]"
  by (simp add: digest_bytes_def take_map upt8)

lemma code_of_zero_digest:
  "take 6 (filter (\<lambda>c. c \<noteq> CHR ''='') (urlsafe_b64encode (take 8 (digest_bytes 0))))
     = ''AAAAAA''"
  by (simp add: take8_digest b64char_def b64_alphabet_def)

lemma code_of_ones_digest:
  "take 6 (filter (\<lambda>c. c \<noteq> CHR ''='') (urlsafe_b64encode (take 8 (digest_bytes (- 1)))))
     = ''______''"
  by (simp add: take8_digest drop_bit_eq_div b64char_def b64_alphabet_def)

lemma demo_expiry:
  "expiry_and_ttl (demo_world (\<lambda>n. int n) rows)
     = (Inr (''1970-03-02T00:00:00+00:00'', 5184000),
        (demo_world (\<lambda>n. int n) rows)\<lparr>reads := 1\<rparr>)"
  by (simp add: expiry_and_ttl_def calculate_expiry_date_def DEFAULT_EXPIRY_DAYS_def now_def
        demo_world_def MAX_INSTANT_def fmt_eval endswith_def iso_eval int_seconds_def
        utc_micros_def ymd2ord_def days_before_year_def days_before_month_def)

lemma attempt_short_id_first:
  "\<not> truthy cs \<Longrightarrow>
   attempt_short_id lib u cs 0 w =
     (Inr (take 6 (filter (\<lambda>c. c \<noteq> CHR ''='')
             (urlsafe_b64encode (take 8 (digest_bytes
                (sha256 lib (u @ timestamp_str lib (clock w (reads w))))))))),
      w\<lparr>reads := Suc (reads w)\<rparr>)"
proof -
  assume "\<not> truthy cs"
  then have "cs = None \<or> cs = Some []"
    by (auto simp: truthy_def split: option.splits list.splits)
  then show ?thesis
    by (simp add: attempt_short_id_def generate_hashed)
qed

lemma attempt_short_id_retry:
  "0 < attempt \<Longrightarrow>
   attempt_short_id lib u cs attempt w =
     (Inr (take 6 (filter (\<lambda>c. c \<noteq> CHR ''='')
             (urlsafe_b64encode (take 8 (digest_bytes
                (sha256 lib ((u @ ''_'' @ str_nat attempt @ ''_''
                                @ isoformat (utc_datetime (clock w (reads w))))
                             @ timestamp_str lib (clock w (Suc (reads w)))))))))),
      w\<lparr>reads := Suc (Suc (reads w))\<rparr>)"
  by (simp add: attempt_short_id_def get_current_timestamp_def now_def generate_hashed)

lemma get_current_timestamp_eq:
  "get_current_timestamp w
     = (isoformat (utc_datetime (clock w (reads w))), w\<lparr>reads := Suc (reads w)\<rparr>)"
  by (simp add: get_current_timestamp_def now_def)

lemma create_url_mapping_conflict:
  assumes "table w = Some rows" and "fault_now w = None" and "has_key sid rows"
  shows "create_url_mapping sid u ed ttl w
           = (Inl (ConflictError ''Resource already exists or condition not met''),
              w\<lparr>reads := Suc (reads w),
                calls := calls w @ [PutItem
                  \<lparr>shortId = sid, longUrl = Some u,
                   createdAt = Some (isoformat (utc_datetime (clock w (reads w)))),
                   expiryDate = Some ed, ttlTimestamp = Some ttl,
                   clickCount = Some 0, lastAccessedAt = None\<rparr>]\<rparr>)"
  using assms
  by (simp add: create_url_mapping_def get_current_timestamp_eq put_item_def fault_now_def
        log_call_def handle_client_error_def)

lemma create_url_mapping_success:
  assumes "table w = Some rows" and "fault_now w = None" and "\<not> has_key sid rows"
  shows "create_url_mapping sid u ed ttl w
           = (Inr \<lparr>shortId = sid, longUrl = Some u,
                   createdAt = Some (isoformat (utc_datetime (clock w (reads w)))),
                   expiryDate = Some ed, ttlTimestamp = Some ttl,
                   clickCount = Some 0, lastAccessedAt = None\<rparr>,
              w\<lparr>reads := Suc (reads w),
                calls := calls w @ [PutItem
                  \<lparr>shortId = sid, longUrl = Some u,
                   createdAt = Some (isoformat (utc_datetime (clock w (reads w)))),
                   expiryDate = Some ed, ttlTimestamp = Some ttl,
                   clickCount = Some 0, lastAccessedAt = None\<rparr>],
                table := Some (rows @
                  [\<lparr>shortId = sid, longUrl = Some u,
                    createdAt = Some (isoformat (utc_datetime (clock w (reads w)))),
                    expiryDate = Some ed, ttlTimestamp = Some ttl,
                    clickCount = Some 0, lastAccessedAt = None\<rparr>])\<rparr>)"
  using assms
  by (simp add: create_url_mapping_def get_current_timestamp_eq put_item_def fault_now_def
        log_call_def Let_def)

lemma str_nat_small:
  "str_nat 0 = ''0''" "str_nat (Suc 0) = ''1''" "str_nat 1 = ''1''" "str_nat 2 = ''2''"
  by (simp_all add: str_nat.simps [of 0] str_nat.simps [of "Suc 0"] str_nat.simps [of 1]
        str_nat.simps [of 2] digit_char_def)

lemma demo_iso:
  "isoformat (utc_datetime 2) = ''1970-01-01T00:00:00.000002+00:00''"
  "isoformat (utc_datetime 3) = ''1970-01-01T00:00:00.000003+00:00''"
  "isoformat (utc_datetime 5) = ''1970-01-01T00:00:00.000005+00:00''"
  "isoformat (utc_datetime 6) = ''1970-01-01T00:00:00.000006+00:00''"
  "isoformat (utc_datetime 8) = ''1970-01-01T00:00:00.000008+00:00''"
  by (simp_all add: fmt_eval)

lemma demo_ts:
  "timestamp_str demo_lib 1 = ''0.000001''"
  "timestamp_str demo_lib 4 = ''0.000004''"
  "timestamp_str demo_lib 7 = ''0.000007''"
  by (simp_all add: demo_lib_def str_int_def str_nat_small zpad6_def digit_char_def)

lemma demo_sha:
  "sha256 demo_lib text = (if text \<noteq> [] \<and> last text = CHR ''7'' then 0 else - 1)"
  by (simp add: demo_lib_def)

theorem third_attempt_accepted_witness:
  "fst (create_short_url_with_retry demo_lib ''https://a.com'' None
          (demo_world (\<lambda>n. int n)
             [demo_item ''______'' ''https://b.com'' ''2099-01-01T00:00:00+00:00'' 4070908800]))
     = Inr (''AAAAAA'',
            \<lparr>shortId = ''AAAAAA'', longUrl = Some ''https://a.com'',
             createdAt = Some ''1970-01-01T00:00:00.000008+00:00'',
             expiryDate = Some ''1970-03-02T00:00:00+00:00'', ttlTimestamp = Some 5184000,
             clickCount = Some 0, lastAccessedAt = None\<rparr>)
   \<and> length (calls (snd (create_short_url_with_retry demo_lib ''https://a.com'' None
          (demo_world (\<lambda>n. int n)
             [demo_item ''______'' ''https://b.com'' ''2099-01-01T00:00:00+00:00''
                4070908800])))) = 3"
proof -
  let ?u = "''https://a.com''"
  let ?ed = "''1970-03-02T00:00:00+00:00''"
  let ?rows = "[demo_item ''______'' ''https://b.com'' ''2099-01-01T00:00:00+00:00'' 4070908800]"
  let ?W = "demo_world (\<lambda>n. int n) ?rows"
  let ?item = "\<lambda>k ts. \<lparr>shortId = k, longUrl = Some ?u, createdAt = Some ts,
             expiryDate = Some ?ed, ttlTimestamp = Some 5184000,
             clickCount = Some 0, lastAccessedAt = None\<rparr>"
  let ?i0 = "?item ''______'' ''1970-01-01T00:00:00.000002+00:00''"
  let ?i1 = "?item ''______'' ''1970-01-01T00:00:00.000005+00:00''"
  let ?i2 = "?item ''AAAAAA'' ''1970-01-01T00:00:00.000008+00:00''"
  let ?conflict = "ConflictError ''Resource already exists or condition not met''"
  have nt: "\<not> truthy None" by (simp add: truthy_def)
  have key: "has_key ''______'' ?rows" "\<not> has_key ''AAAAAA'' ?rows"
    by (simp_all add: has_key_def demo_item_def)
  have h2: "expiry_and_ttl ?W = (Inr (?ed, 5184000), ?W\<lparr>reads := 1\<rparr>)"
    by (rule demo_expiry)
  have h3: "attempt_short_id demo_lib ?u None 0 (?W\<lparr>reads := 1\<rparr>)
              = (Inr ''______'', ?W\<lparr>reads := 2\<rparr>)"
    by (simp add: attempt_short_id_first [OF nt] demo_world_def demo_ts demo_sha
          code_of_ones_digest)
  have h4: "create_url_mapping ''______'' ?u ?ed 5184000 (?W\<lparr>reads := 2\<rparr>)
              = (Inl ?conflict, ?W\<lparr>reads := 3, calls := [PutItem ?i0]\<rparr>)"
    using key(1)
    by (subst create_url_mapping_conflict [where rows = ?rows])
       (simp_all add: demo_world_def fault_now_def demo_iso)
  have h6: "attempt_short_id demo_lib ?u None 1 (?W\<lparr>reads := 3, calls := [PutItem ?i0]\<rparr>)
              = (Inr ''______'', ?W\<lparr>reads := 5, calls := [PutItem ?i0]\<rparr>)"
    by (simp add: attempt_short_id_retry demo_world_def demo_ts demo_sha demo_iso
          code_of_ones_digest)
  have h7: "create_url_mapping ''______'' ?u ?ed 5184000
              (?W\<lparr>reads := 5, calls := [PutItem ?i0]\<rparr>)
              = (Inl ?conflict, ?W\<lparr>reads := 6, calls := [PutItem ?i0, PutItem ?i1]\<rparr>)"
    using key(1)
    by (subst create_url_mapping_conflict [where rows = ?rows])
       (simp_all add: demo_world_def fault_now_def demo_iso)
  have h9: "attempt_short_id demo_lib ?u None 2
              (?W\<lparr>reads := 6, calls := [PutItem ?i0, PutItem ?i1]\<rparr>)
              = (Inr ''AAAAAA'', ?W\<lparr>reads := 8, calls := [PutItem ?i0, PutItem ?i1]\<rparr>)"
    by (simp add: attempt_short_id_retry demo_world_def demo_ts demo_sha demo_iso
          code_of_zero_digest)
  have h10: "create_url_mapping ''AAAAAA'' ?u ?ed 5184000
              (?W\<lparr>reads := 8, calls := [PutItem ?i0, PutItem ?i1]\<rparr>)
              = (Inr ?i2, ?W\<lparr>reads := 9, calls := [PutItem ?i0, PutItem ?i1, PutItem ?i2],
                             table := Some (?rows @ [?i2])\<rparr>)"
    using key(2)
    by (subst create_url_mapping_success [where rows = ?rows])
       (simp_all add: demo_world_def fault_now_def demo_iso)
  have c: "class_of ?conflict = CConflictError" by simp
  show ?thesis
    using third_attempt_accepted [OF nt h2 h3 h4 c h6 h7 c h9 h10]
    by (simp add: demo_world_def)
qed

lemma demo_iso1: "isoformat (utc_datetime 1) = ''1970-01-01T00:00:00.000001+00:00''"
  by (simp add: fmt_eval)

theorem custom_suffix_conflict_not_retried_witness:
  "fst (create_short_url_with_retry demo_lib ''https://a.com'' (Some ''my-link'')
          (demo_world (\<lambda>n. int n)
             [demo_item ''my-link'' ''https://b.com'' ''2099-01-01T00:00:00+00:00'' 4070908800]))
     = Inl (ConflictError ''Resource already exists or condition not met'')
   \<and> length (calls (snd (create_short_url_with_retry demo_lib ''https://a.com''
          (Some ''my-link'')
          (demo_world (\<lambda>n. int n)
             [demo_item ''my-link'' ''https://b.com'' ''2099-01-01T00:00:00+00:00''
                4070908800])))) = 1
   \<and> table (snd (create_short_url_with_retry demo_lib ''https://a.com'' (Some ''my-link'')
          (demo_world (\<lambda>n. int n)
             [demo_item ''my-link'' ''https://b.com'' ''2099-01-01T00:00:00+00:00''
                4070908800])))
     = Some [demo_item ''my-link'' ''https://b.com'' ''2099-01-01T00:00:00+00:00'' 4070908800]"
proof -
  let ?u = "''https://a.com''"
  let ?ed = "''1970-03-02T00:00:00+00:00''"
  let ?rows = "[demo_item ''my-link'' ''https://b.com'' ''2099-01-01T00:00:00+00:00'' 4070908800]"
  let ?W = "demo_world (\<lambda>n. int n) ?rows"
  let ?i0 = "\<lparr>shortId = ''my-link'', longUrl = Some ?u,
             createdAt = Some ''1970-01-01T00:00:00.000001+00:00'',
             expiryDate = Some ?ed, ttlTimestamp = Some 5184000,
             clickCount = Some 0, lastAccessedAt = None\<rparr>"
  let ?conflict = "ConflictError ''Resource already exists or condition not met''"
  have h1: "is_valid_custom_suffix ''my-link''"
    by (simp add: is_valid_custom_suffix_def suffix_pattern_match_def is_suffix_char_def
          CUSTOM_SUFFIX_MIN_LENGTH_def CUSTOM_SUFFIX_MAX_LENGTH_def)
  have key: "has_key ''my-link'' ?rows"
    by (simp add: has_key_def demo_item_def)
  have h2: "expiry_and_ttl ?W = (Inr (?ed, 5184000), ?W\<lparr>reads := 1\<rparr>)"
    by (rule demo_expiry)
  have h3: "create_url_mapping ''my-link'' ?u ?ed 5184000 (?W\<lparr>reads := 1\<rparr>)
              = (Inl ?conflict, ?W\<lparr>reads := 2, calls := [PutItem ?i0]\<rparr>)"
    using key
    by (subst create_url_mapping_conflict [where rows = ?rows])
       (simp_all add: demo_world_def fault_now_def demo_iso1)
  have c: "class_of ?conflict = CConflictError" by simp
  show ?thesis
    using custom_suffix_conflict_not_retried [OF h1 h2 h3 c, of demo_lib]
    by (simp add: demo_world_def)
qed












section \<open>The deduplication lookup and the resolve path\<close>

lemma is_expired_default_empty:
  "is_expired t (Some (case e of None \<Rightarrow> [] | Some s \<Rightarrow> s)) = is_expired t e"
  by (cases e) (simp_all add: is_expired_def)

lemma is_expired_at_clock:
  "clock (snd (is_expired_at e w)) = clock w"
  by (simp add: is_expired_at_def now_def)

lemma first_not_expired_found:
  assumes "\<forall>n. clock w n = t" and "fst (first_not_expired items w) = Some item"
  shows "item \<in> set items \<and> \<not> is_expired t (expiryDate item)"
  using assms
proof (induction items arbitrary: w)
  case Nil
  then show ?case by simp
next
  case (Cons a items)
  let ?e = "Some (case expiryDate a of None \<Rightarrow> [] | Some s \<Rightarrow> s)"
  let ?w' = "snd (is_expired_at ?e w)"
  have ex: "fst (is_expired_at ?e w) = is_expired t (expiryDate a)"
    using Cons.prems(1) by (simp add: is_expired_at_def is_expired_default_empty)
  show ?case
  proof (cases "is_expired t (expiryDate a)")
    case True
    then have "first_not_expired (a # items) w = first_not_expired items ?w'"
      using ex by (simp add: case_prod_unfold)
    moreover have "\<forall>n. clock ?w' n = t"
      using Cons.prems(1) by (simp add: is_expired_at_clock)
    ultimately show ?thesis
      using Cons.IH [of ?w'] Cons.prems(2) by simp
  next
    case False
    then have "fst (first_not_expired (a # items) w) = Some a"
      using ex by (simp add: case_prod_unfold)
    with Cons.prems(2) False show ?thesis by simp
  qed
qed

lemma find_existing_url_found:
  assumes "\<forall>n. clock w n = t" and "table w = Some rows" and "\<forall>n. faults w n = None"
    and "fst (find_existing_url u w) = Inr (Some item)"
  shows "item \<in> set rows \<and> longUrl item = Some u
       \<and> (\<exists>n. ttlTimestamp item = Some n \<and> n > int_seconds t)
       \<and> \<not> is_expired t (expiryDate item)"
proof -
  let ?w0 = "w\<lparr>reads := Suc (reads w)\<rparr>"
  let ?items = "filter (\<lambda>r. longUrl r = Some u
                   \<and> (case ttlTimestamp r of None \<Rightarrow> False | Some n \<Rightarrow> n > int_seconds t)) rows"
  let ?w1 = "log_call (Query u (int_seconds t)) ?w0"
  have q: "query u (int_seconds t) rows ?w0 = (Inr ?items, ?w1)"
    using assms(3) by (simp add: query_def fault_now_def)
  have "find_existing_url u w = (Inr (fst (first_not_expired ?items ?w1)),
                                  snd (first_not_expired ?items ?w1))"
    using assms(1,2) q by (simp add: find_existing_url_def now_def case_prod_unfold Let_def)
  with assms(4) have f: "fst (first_not_expired ?items ?w1) = Some item" by simp
  have "\<forall>n. clock ?w1 n = t" using assms(1) by (simp add: log_call_def)
  from first_not_expired_found [OF this f] show ?thesis
    by (auto split: option.splits)
qed

lemma truthy_Some_iff: "truthy (Some s) = (s \<noteq> [])"
  by (cases s) (simp_all add: truthy_def)

lemma redirect_alive:
  assumes "extract_path_parameters ev = (Some k, stg, tenant)" and "k \<noteq> []"
    and "table w = Some rows" and "fault_now w = None"
    and "find (\<lambda>r. shortId r = k) rows = Some item"
    and "\<not> is_expired (clock w (reads w)) (expiryDate item)"
    and "longUrl item = Some u"
  shows "fst (redirect_handler ev w) = create_redirect_response u"
proof -
  let ?w1 = "log_call (GetItem k) w"
  have g: "get_url_by_short_id k w = (Inr (Some item), ?w1)"
    using assms(3,4,5) by (simp add: get_url_by_short_id_def get_item_def)
  define w2 where "w2 = snd (is_expired_at (expiryDate item) ?w1)"
  have e: "is_expired_at (expiryDate item) ?w1 = (False, w2)"
    using assms(6) by (simp add: is_expired_at_def log_call_def w2_def)
  have "fst (redirect_try ev w) = Inr (create_redirect_response u)"
    using assms(1,2,7)
    by (simp add: redirect_try_def truthy_Some_iff g e case_prod_unfold)
  then show ?thesis
    by (simp add: redirect_handler_def case_prod_unfold split: sum.splits)
qed

text \<open>
  C4 (as amended). At one and the same instant, with no store failure, every mapping the
  deduplication lookup returns is alive for the resolve path too: it has the long URL, it
  passed the store's filter \<open>ttlTimestamp > whole seconds of now\<close>, \<open>is_expired\<close> says
  it is not expired, and a resolve of its short id redirects to the long URL. The lookup
  is the stricter of the two, since it applies the filter as well as \<open>is_expired\<close>.
\<close>

theorem dedup_alive_implies_resolve_alive:
  assumes "\<forall>n. clock w n = t"
    and "table w = Some rows"
    and "\<forall>n. faults w n = None"
    and "fst (find_existing_url u w) = Inr (Some item)"
    and "find (\<lambda>r. shortId r = shortId item) rows = Some item"
    and "extract_path_parameters ev = (Some (shortId item), stg, tenant)"
    and "shortId item \<noteq> []"
  shows "longUrl item = Some u
       \<and> (\<exists>n. ttlTimestamp item = Some n \<and> n > int_seconds t)
       \<and> \<not> is_expired t (expiryDate item)
       \<and> fst (redirect_handler ev w) = create_redirect_response u"
proof -
  from find_existing_url_found [OF assms(1,2,3,4)]
  have f: "longUrl item = Some u" "\<exists>n. ttlTimestamp item = Some n \<and> n > int_seconds t"
    "\<not> is_expired t (expiryDate item)"
    by blast+
  have nf: "fault_now w = None" using assms(3) by (simp add: fault_now_def)
  have ne: "\<not> is_expired (clock w (reads w)) (expiryDate item)"
    using f(3) assms(1) by simp
  from redirect_alive [OF assms(6,7,2) nf assms(5) ne f(1)] f show ?thesis by blast
qed

lemma find_existing_url_eq:
  assumes "table w = Some rows" and "fault_now w = None"
  shows "find_existing_url u w
     = (Inr (fst (first_not_expired
                (filter (\<lambda>r. longUrl r = Some u
                     \<and> (case ttlTimestamp r of None \<Rightarrow> False
                         | Some n \<Rightarrow> n > int_seconds (clock w (reads w)))) rows)
                (w\<lparr>reads := Suc (reads w),
                   calls := calls w @ [Query u (int_seconds (clock w (reads w)))]\<rparr>))),
        snd (first_not_expired
                (filter (\<lambda>r. longUrl r = Some u
                     \<and> (case ttlTimestamp r of None \<Rightarrow> False
                         | Some n \<Rightarrow> n > int_seconds (clock w (reads w)))) rows)
                (w\<lparr>reads := Suc (reads w),
                   calls := calls w @ [Query u (int_seconds (clock w (reads w)))]\<rparr>)))"
proof -
  let ?t = "clock w (reads w)"
  let ?w0 = "w\<lparr>reads := Suc (reads w)\<rparr>"
  let ?items = "filter (\<lambda>r. longUrl r = Some u
                   \<and> (case ttlTimestamp r of None \<Rightarrow> False | Some n \<Rightarrow> n > int_seconds ?t))
                  rows"
  have q: "query u (int_seconds ?t) rows ?w0
             = (Inr ?items, w\<lparr>reads := Suc (reads w),
                   calls := calls w @ [Query u (int_seconds ?t)]\<rparr>)"
    using assms(2) by (simp add: query_def fault_now_def log_call_def)
  show ?thesis
    using assms(1) q by (simp add: find_existing_url_def now_def case_prod_unfold Let_def)
qed

lemma demo_half_second:
  "\<not> is_expired 1000200000 (Some ''1970-01-01T00:16:40.500000+00:00'')"
  by (simp add: expiry_eval iso_eval)

text \<open>
  C4 as stated fails. A mapping that expires at 1000.5 s carries the TTL timestamp 1000,
  the whole seconds of that instant. At 1000.2 s the lookup's filter \<open>1000 > 1000\<close>
  drops it, so the lookup finds no live mapping, while the resolve path still redirects.
\<close>

theorem dedup_resolve_disagree_counterexample:
  "int_seconds 1000500000 = 1000
   \<and> fst (find_existing_url ''https://a.com'' (demo_world (\<lambda>n. 1000200000)
          [demo_item ''abc123'' ''https://a.com'' ''1970-01-01T00:16:40.500000+00:00'' 1000])) = Inr None
   \<and> fst (redirect_handler (demo_event ''abc123'') (demo_world (\<lambda>n. 1000200000)
          [demo_item ''abc123'' ''https://a.com'' ''1970-01-01T00:16:40.500000+00:00'' 1000]))
       = create_redirect_response ''https://a.com''"
proof -
  have a: "int_seconds 1000500000 = 1000" by (simp add: int_seconds_def)
  let ?item = "demo_item ''abc123'' ''https://a.com'' ''1970-01-01T00:16:40.500000+00:00'' 1000"
  let ?W = "demo_world (\<lambda>n. 1000200000) [?item]"
  have t: "table ?W = Some [?item]" by (simp add: demo_world_def)
  have nf: "fault_now ?W = None" by (simp add: fault_now_def demo_world_def)
  have b: "fst (find_existing_url ''https://a.com'' ?W) = Inr None"
    by (simp add: find_existing_url_eq [OF t nf])
       (simp add: demo_world_def demo_item_def int_seconds_def)
  have h1: "extract_path_parameters (demo_event ''abc123'') = (Some ''abc123'', None, None)"
    by (simp add: extract_path_parameters_def demo_event_def)
  have h2: "''abc123'' \<noteq> []" by simp
  have h5: "find (\<lambda>r. shortId r = ''abc123'') [?item] = Some ?item"
    by (simp add: demo_item_def)
  have h6: "\<not> is_expired (clock ?W (reads ?W)) (expiryDate ?item)"
    using demo_half_second by (simp add: demo_world_def demo_item_def)
  have h7: "longUrl ?item = Some ''https://a.com''" by (simp add: demo_item_def)
  have c: "fst (redirect_handler (demo_event ''abc123'') ?W)
       = create_redirect_response ''https://a.com''"
    by (rule redirect_alive [OF h1 h2 t nf h5 h6 h7])
  from a b c show ?thesis by blast
qed

theorem dedup_alive_implies_resolve_alive_witness:
  "fst (find_existing_url ''https://a.com'' (demo_world (\<lambda>n. 1000200000)
          [demo_item ''abc123'' ''https://a.com'' ''1970-01-01T00:16:40.500000+00:00'' 1001]))
     = Inr (Some (demo_item ''abc123'' ''https://a.com''
                    ''1970-01-01T00:16:40.500000+00:00'' 1001))
   \<and> \<not> is_expired 1000200000 (Some ''1970-01-01T00:16:40.500000+00:00'')
   \<and> fst (redirect_handler (demo_event ''abc123'') (demo_world (\<lambda>n. 1000200000)
          [demo_item ''abc123'' ''https://a.com'' ''1970-01-01T00:16:40.500000+00:00'' 1001]))
       = create_redirect_response ''https://a.com''"
proof -
  let ?item = "demo_item ''abc123'' ''https://a.com'' ''1970-01-01T00:16:40.500000+00:00'' 1001"
  have e: "\<not> is_expired 1000200000 (expiryDate ?item)"
    using demo_half_second by (simp add: demo_item_def)
  have t: "table (demo_world (\<lambda>n. 1000200000)
          [demo_item ''abc123'' ''https://a.com'' ''1970-01-01T00:16:40.500000+00:00'' 1001]) = Some [?item]" by (simp add: demo_world_def)
  have nf: "fault_now (demo_world (\<lambda>n. 1000200000)
          [demo_item ''abc123'' ''https://a.com'' ''1970-01-01T00:16:40.500000+00:00'' 1001]) = None" by (simp add: fault_now_def demo_world_def)
  have h4: "fst (find_existing_url ''https://a.com'' (demo_world (\<lambda>n. 1000200000)
          [demo_item ''abc123'' ''https://a.com'' ''1970-01-01T00:16:40.500000+00:00'' 1001])) = Inr (Some ?item)"
    using e
    by (simp add: find_existing_url_eq [OF t nf])
       (simp add: demo_world_def demo_item_def int_seconds_def is_expired_at_def
          case_prod_unfold is_expired_default_empty)
  have h1: "\<forall>n. clock (demo_world (\<lambda>n. 1000200000)
          [demo_item ''abc123'' ''https://a.com'' ''1970-01-01T00:16:40.500000+00:00'' 1001]) n = 1000200000" by (simp add: demo_world_def)
  have h2: "table (demo_world (\<lambda>n. 1000200000)
          [demo_item ''abc123'' ''https://a.com'' ''1970-01-01T00:16:40.500000+00:00'' 1001]) = Some [?item]" by (simp add: demo_world_def)
  have h3: "\<forall>n. faults (demo_world (\<lambda>n. 1000200000)
          [demo_item ''abc123'' ''https://a.com'' ''1970-01-01T00:16:40.500000+00:00'' 1001]) n = None" by (simp add: demo_world_def)
  have h5: "find (\<lambda>r. shortId r = shortId ?item) [?item] = Some ?item" by simp
  have h6: "extract_path_parameters (demo_event ''abc123'')
              = (Some (shortId ?item), None, None)"
    by (simp add: extract_path_parameters_def demo_event_def demo_item_def)
  have h7: "shortId ?item \<noteq> []" by (simp add: demo_item_def)
  show ?thesis
    using dedup_alive_implies_resolve_alive [OF h1 h2 h3 h4 h5 h6 h7] h4
    by (simp add: demo_item_def)
qed

section \<open>Properties of the create-or-get handler\<close>

lemma fromisoformat_error_class:
  "fromisoformat s = Inl e \<Longrightarrow> class_of e = CValueError"
  by (auto simp: fromisoformat_def split: option.splits if_splits prod.splits)

lemma expiry_and_ttl_error_class:
  assumes "expiry_and_ttl w = (Inl e, w')"
  shows "class_of e = CValueError \<or> class_of e = COverflowError"
  using assms
  by (auto simp: expiry_and_ttl_def calculate_expiry_date_def DEFAULT_EXPIRY_DAYS_def now_def
        Let_def split: if_splits sum.splits dest: fromisoformat_error_class)

lemma invalid_suffix_loop:
  assumes "s \<noteq> []" and "\<not> is_valid_custom_suffix s"
  shows "retry_loop lib u (Some s) ed ttl 0 w
           = (Inl (ValueError (''Custom suffix must be 3-20 alphanumeric characters, got: ''
                                  @ [CHR 0x27] @ s @ [CHR 0x27])), w)"
  using assms
  by (subst retry_loop.simps)
     (cases s, simp_all add: MAX_COLLISION_RETRIES_def attempt_short_id_def truthy_def
        generate_short_url_def)

lemma internal_error_response:
  "class_of e = CValueError \<or> class_of e = COverflowError
     \<Longrightarrow> create_or_get_except e
           = create_error_response HTTP_STATUS_INTERNAL_ERROR ''Internal server error''"
  by (auto simp: create_or_get_except_def)

text \<open>
  C2. A create-or-get request with a valid long URL, no live mapping for it and a
  non-empty malformed custom suffix is answered 500 \<open>Internal server error\<close>, not 400:
  \<open>generate_short_url\<close> raises \<open>ValueError\<close>, which no clause before
  \<open>except Exception\<close> catches. No store write is made: the only store call is the
  lookup's query.
\<close>

theorem invalid_suffix_is_internal_error:
  assumes "parse_request_body lib ev = Inr b"
    and "b ''longUrl'' = Some u" and "u \<noteq> []" and "is_valid_url lib u"
    and "b ''customSuffix'' = Some s" and "s \<noteq> []" and "\<not> is_valid_custom_suffix s"
    and "find_existing_url u w = (Inr None, w1)"
  shows "fst (create_or_get_handler lib ev w)
           = create_error_response HTTP_STATUS_INTERNAL_ERROR ''Internal server error''
       \<and> statusCode (fst (create_or_get_handler lib ev w)) = 500
       \<and> statusCode (fst (create_or_get_handler lib ev w)) \<noteq> HTTP_STATUS_BAD_REQUEST
       \<and> calls (snd (create_or_get_handler lib ev w)) = calls w1
       \<and> table (snd (create_or_get_handler lib ev w)) = table w1"
proof -
  obtain r w2 where ex: "expiry_and_ttl w1 = (r, w2)" by (cases "expiry_and_ttl w1")
  have fr: "calls w2 = calls w1" "table w2 = table w1"
    using expiry_and_ttl_frame [OF ex] by simp_all
  have "\<exists>e. create_short_url_with_retry lib u (Some s) w1 = (Inl e, w2)
            \<and> (class_of e = CValueError \<or> class_of e = COverflowError)"
  proof (cases r)
    case (Inl e)
    with ex expiry_and_ttl_error_class [of w1 e w2] show ?thesis
      by (simp add: create_short_url_with_retry_def)
  next
    case (Inr p)
    then obtain ed ttl where "r = Inr (ed, ttl)" by (cases p) simp
    with ex invalid_suffix_loop [OF assms(6,7)] show ?thesis
      by (simp add: create_short_url_with_retry_def)
  qed
  then obtain e where run: "create_short_url_with_retry lib u (Some s) w1 = (Inl e, w2)"
    and cl: "class_of e = CValueError \<or> class_of e = COverflowError" by blast
  have tu: "truthy (Some u)" using assms(3) by (cases u) (simp_all add: truthy_def)
  have "create_or_get_try lib ev w = (Inl e, w2)"
    using assms(1,2,4,5,8) tu run by (simp add: create_or_get_try_def)
  then have "create_or_get_handler lib ev w = (create_or_get_except e, w2)"
    by (simp add: create_or_get_handler_def)
  with internal_error_response [OF cl] fr show ?thesis
    by (simp add: create_error_response_def create_json_response_def
          HTTP_STATUS_INTERNAL_ERROR_def HTTP_STATUS_BAD_REQUEST_def)
qed

theorem invalid_suffix_is_internal_error_witness:
  "fst (create_or_get_handler demo_lib
          \<lparr>pathParameters = Map.empty,
           body = BodyDict [''longUrl'' \<mapsto> ''https://a.com'', ''customSuffix'' \<mapsto> ''ab''],
           host = None, stage = None\<rparr>
          (demo_world (\<lambda>n. int n) []))
     = create_error_response 500 ''Internal server error''
   \<and> calls (snd (create_or_get_handler demo_lib
          \<lparr>pathParameters = Map.empty,
           body = BodyDict [''longUrl'' \<mapsto> ''https://a.com'', ''customSuffix'' \<mapsto> ''ab''],
           host = None, stage = None\<rparr>
          (demo_world (\<lambda>n. int n) [])))
     = [Query ''https://a.com'' 0]
   \<and> table (snd (create_or_get_handler demo_lib
          \<lparr>pathParameters = Map.empty,
           body = BodyDict [''longUrl'' \<mapsto> ''https://a.com'', ''customSuffix'' \<mapsto> ''ab''],
           host = None, stage = None\<rparr>
          (demo_world (\<lambda>n. int n) []))) = Some []"
proof -
  let ?b = "[''longUrl'' \<mapsto> ''https://a.com'', ''customSuffix'' \<mapsto> ''ab'']"
  let ?ev = "\<lparr>pathParameters = Map.empty,
           body = BodyDict [''longUrl'' \<mapsto> ''https://a.com'', ''customSuffix'' \<mapsto> ''ab''],
           host = None, stage = None\<rparr>"
  let ?W = "demo_world (\<lambda>n. int n) []"
  let ?W1 = "?W\<lparr>reads := 1, calls := [Query ''https://a.com'' 0]\<rparr>"
  have h1: "parse_request_body demo_lib ?ev = Inr ?b"
    by (simp add: parse_request_body_def)
  have h2: "?b ''longUrl'' = Some ''https://a.com''" by simp
  have h3: "''https://a.com'' \<noteq> []" by simp
  have h4: "is_valid_url demo_lib ''https://a.com''"
    by (simp add: is_valid_url_def demo_lib_def)
  have h5: "?b ''customSuffix'' = Some ''ab''" by simp
  have h6: "''ab'' \<noteq> []" by simp
  have h7: "\<not> is_valid_custom_suffix ''ab''"
    by (simp add: is_valid_custom_suffix_def CUSTOM_SUFFIX_MIN_LENGTH_def)
  have t: "table ?W = Some []" by (simp add: demo_world_def)
  have nf: "fault_now ?W = None" by (simp add: fault_now_def demo_world_def)
  have h8: "find_existing_url ''https://a.com'' ?W = (Inr None, ?W1)"
    by (simp add: find_existing_url_eq [OF t nf])
       (simp add: demo_world_def int_seconds_def)
  show ?thesis
    using invalid_suffix_is_internal_error [OF h1 h2 h3 h4 h5 h6 h7 h8]
    by (simp add: demo_world_def HTTP_STATUS_INTERNAL_ERROR_def)
qed

end
